theory Spec2Isabelle
  imports Complex_Main
begin

section \<open>Python text\<close>

text \<open>
  Python strings are modelled as \<open>string\<close> (lists of \<open>char\<close>): the code points
  0 to 255. Every literal, pattern and keyword of the verified script is ASCII.
\<close>

definition nl :: char where
  "nl = CHR 0x0A"

definition bslash :: char where
  "bslash = CHR 0x5C"

definition dquote :: char where
  "dquote = CHR 0x22"

definition backtick :: char where
  "backtick = CHR 0x60"

definition in_range :: "char \<Rightarrow> char \<Rightarrow> char \<Rightarrow> bool" where
  "in_range lo hi c = ((of_char lo :: int) \<le> of_char c \<and> (of_char c :: int) \<le> of_char hi)"

definition is_space :: "char \<Rightarrow> bool" where
  \<comment> \<open>\<open>str.isspace\<close> and the class \<open>\s\<close> on code points below 256\<close>
  "is_space c = ((of_char c :: int) \<in> set [9, 10, 11, 12, 13, 28, 29, 30, 31, 32, 133, 160])"

definition non_space :: "char \<Rightarrow> bool" where
  "non_space c = (\<not> is_space c)"

definition is_digit :: "char \<Rightarrow> bool" where
  "is_digit c = in_range (CHR ''0'') (CHR ''9'') c"

definition is_lower :: "char \<Rightarrow> bool" where
  "is_lower c = in_range (CHR ''a'') (CHR ''z'') c"

definition is_upper :: "char \<Rightarrow> bool" where
  "is_upper c = in_range (CHR ''A'') (CHR ''Z'') c"

definition is_alpha :: "char \<Rightarrow> bool" where
  "is_alpha c = (is_lower c \<or> is_upper c)"

definition any_char :: "char \<Rightarrow> bool" where
  "any_char c = True"

definition not_nl :: "char \<Rightarrow> bool" where
  "not_nl c = (c \<noteq> nl)"

definition one_of :: "string \<Rightarrow> char \<Rightarrow> bool" where
  "one_of cs c = (c \<in> set cs)"

section \<open>The regular expressions of the script\<close>

text \<open>
  The fragment of Python's \<open>re\<close> that the script uses: literals, character classes,
  sequence, alternation, numbered groups, the greedy quantifiers \<open>*\<close>, \<open>+\<close>, \<open>?\<close> and the
  lazy \<open>*?\<close> on a single character class, and \<open>$\<close>. Matching is by backtracking in
  priority order, as in \<open>re\<close>: the continuation \<open>k\<close> is the rest of the pattern.
\<close>

datatype rx =
    Eps
  | Lit string
  | Cls "char \<Rightarrow> bool"
  | Seq rx rx
  | Alt rx rx
  | Star "char \<Rightarrow> bool"
  | Plus "char \<Rightarrow> bool"
  | Opt "char \<Rightarrow> bool"
  | LazyStar "char \<Rightarrow> bool"
  | Grp nat rx
  | Eos

type_synonym groups = "(nat \<times> string) list"

fun star_greedy :: "(char \<Rightarrow> bool) \<Rightarrow> string \<Rightarrow> (string \<Rightarrow> 'a option) \<Rightarrow> 'a option" where
  "star_greedy p [] k = k []"
| "star_greedy p (c # s) k =
     (if p c then (case star_greedy p s k of Some r \<Rightarrow> Some r | None \<Rightarrow> k (c # s))
      else k (c # s))"

fun star_lazy :: "(char \<Rightarrow> bool) \<Rightarrow> string \<Rightarrow> (string \<Rightarrow> 'a option) \<Rightarrow> 'a option" where
  "star_lazy p [] k = k []"
| "star_lazy p (c # s) k =
     (case k (c # s) of Some r \<Rightarrow> Some r
      | None \<Rightarrow> if p c then star_lazy p s k else None)"

fun strip_prefix :: "string \<Rightarrow> string \<Rightarrow> string option" where
  \<comment> \<open>what follows the word \<open>w\<close> at the start of the text, if it stands there\<close>
  "strip_prefix [] s = Some s"
| "strip_prefix (c # w) [] = None"
| "strip_prefix (c # w) (x # s) = (if c = x then strip_prefix w s else None)"

fun rx_match :: "rx \<Rightarrow> string \<Rightarrow> groups \<Rightarrow> (string \<Rightarrow> groups \<Rightarrow> 'a option) \<Rightarrow> 'a option" where
  "rx_match Eps s g k = k s g"
| "rx_match (Lit w) s g k = (case strip_prefix w s of None \<Rightarrow> None | Some s' \<Rightarrow> k s' g)"
| "rx_match (Cls p) s g k = (case s of [] \<Rightarrow> None | x # xs \<Rightarrow> if p x then k xs g else None)"
| "rx_match (Seq a b) s g k = rx_match a s g (\<lambda>s' g'. rx_match b s' g' k)"
| "rx_match (Alt a b) s g k =
     (case rx_match a s g k of Some r \<Rightarrow> Some r | None \<Rightarrow> rx_match b s g k)"
| "rx_match (Star p) s g k = star_greedy p s (\<lambda>s'. k s' g)"
| "rx_match (Plus p) s g k =
     (case s of [] \<Rightarrow> None | x # xs \<Rightarrow> if p x then star_greedy p xs (\<lambda>s'. k s' g) else None)"
| "rx_match (Opt p) s g k =
     (case s of [] \<Rightarrow> k [] g
      | x # xs \<Rightarrow> if p x then (case k xs g of Some r \<Rightarrow> Some r | None \<Rightarrow> k s g) else k s g)"
| "rx_match (LazyStar p) s g k = star_lazy p s (\<lambda>s'. k s' g)"
| "rx_match (Grp n r) s g k =
     rx_match r s g (\<lambda>s' g'. k s' ((n, take (length s - length s') s) # g'))"
| "rx_match Eos s g k = (if s = [] \<or> s = [nl] then k s g else None)"

definition seqs :: "rx list \<Rightarrow> rx" where
  "seqs rs = foldr Seq rs Eps"

definition alts :: "string list \<Rightarrow> rx" where
  \<comment> \<open>\<open>(w1|w2|...)\<close> without the group\<close>
  "alts ws = foldr (\<lambda>w r. Alt (Lit w) r) (butlast ws) (Lit (last ws))"

text \<open>
  \<open>match_here\<close> is \<open>pattern.match\<close> at the start of \<open>s\<close>: the length of the first
  match in priority order and its groups. \<open>re_search\<close> is \<open>re.search\<close>: the leftmost
  start with a match, as (start, length, groups).
\<close>

definition match_here :: "rx \<Rightarrow> string \<Rightarrow> (nat \<times> groups) option" where
  "match_here r s = rx_match r s [] (\<lambda>s' g. Some (length s - length s', g))"

fun re_search :: "rx \<Rightarrow> string \<Rightarrow> (nat \<times> nat \<times> groups) option" where
  "re_search r [] = map_option (\<lambda>(n, g). (0, n, g)) (match_here r [])"
| "re_search r (c # s) =
     (case match_here r (c # s) of
        Some (n, g) \<Rightarrow> Some (0, n, g)
      | None \<Rightarrow> map_option (\<lambda>(i, n, g). (Suc i, n, g)) (re_search r s))"

definition group :: "groups \<Rightarrow> nat \<Rightarrow> string" where
  \<comment> \<open>\<open>match.group(n)\<close> for a group that took part in the match\<close>
  "group g n = (case map_of g n of Some t \<Rightarrow> t | None \<Rightarrow> [])"


text \<open>
  The matches that \<open>re.sub\<close>, \<open>re.finditer\<close> and \<open>re.findall\<close> visit: leftmost first,
  not overlapping, each as (text skipped before the match, groups), and the text after
  the last match. \<open>cnt\<close> is the \<open>count\<close> argument of \<open>re.sub\<close>. Every pattern the script
  scans with begins with a literal, so no match is empty; the model steps over one
  character after an empty match.
\<close>

fun push_char :: "char \<Rightarrow> (string \<times> groups) list \<times> string \<Rightarrow> (string \<times> groups) list \<times> string" where
  "push_char c ([], rest) = ([], c # rest)"
| "push_char c ((pre, g) # ms, rest) = ((c # pre, g) # ms, rest)"

fun scan :: "rx \<Rightarrow> nat option \<Rightarrow> string \<Rightarrow> (string \<times> groups) list \<times> string" where
  "scan r cnt [] =
     (if cnt = Some 0 then ([], [])
      else case match_here r [] of Some (n, g) \<Rightarrow> ([([], g)], []) | None \<Rightarrow> ([], []))"
| "scan r cnt (c # s) =
     (if cnt = Some 0 then ([], c # s)
      else case match_here r (c # s) of
        Some (n, g) \<Rightarrow>
          (case (if n = 0 then push_char c (scan r (map_option (\<lambda>k. k - 1) cnt) s)
                 else scan r (map_option (\<lambda>k. k - 1) cnt) (drop (n - 1) s)) of
             (ms, rest) \<Rightarrow> (([], g) # ms, rest))
      | None \<Rightarrow> push_char c (scan r cnt s))"

datatype py_error =
    TypeError | AttributeError | IndexError | KeyError | ReError | OSError | YAMLError

datatype tpart = TLit string | TGrp nat

definition is_octal :: "char \<Rightarrow> bool" where
  "is_octal c = in_range (CHR ''0'') (CHR ''7'') c"

definition digit_val :: "char \<Rightarrow> nat" where
  "digit_val c = of_char c - of_char (CHR ''0'')"

definition template_escape :: "char \<Rightarrow> char option" where
  \<comment> \<open>the escapes a replacement template knows besides group references\<close>
  "template_escape c =
     (if c = CHR ''a'' then Some (CHR 0x07) else if c = CHR ''b'' then Some (CHR 0x08)
      else if c = CHR ''f'' then Some (CHR 0x0C) else if c = CHR ''n'' then Some (CHR 0x0A)
      else if c = CHR ''r'' then Some (CHR 0x0D) else if c = CHR ''t'' then Some (CHR 0x09)
      else if c = CHR ''v'' then Some (CHR 0x0B) else if c = bslash then Some bslash
      else None)"

definition tcons :: "tpart \<Rightarrow> py_error + tpart list \<Rightarrow> py_error + tpart list" where
  "tcons t r = (case r of Inl e \<Rightarrow> Inl e | Inr ts \<Rightarrow> Inr (t # ts))"

definition group_ref :: "nat \<Rightarrow> nat \<Rightarrow> py_error + tpart list \<Rightarrow> py_error + tpart list" where
  "group_ref ng i r = (if i > ng then Inl ReError else tcons (TGrp i) r)"

text \<open>
  \<open>parse_template ng repl\<close>: the replacement string of \<open>re.sub\<close> for a pattern with
  \<open>ng\<close> groups, none of them named, as \<open>re\<close> reads it: \<open>\1\<close> to \<open>\99\<close> and \<open>\g<n>\<close> are
  group references, \<open>\0\<close> and three octal digits are a character, a backslash before
  another ASCII letter or at the end is an error, any other backslash stays.
\<close>

function parse_template :: "nat \<Rightarrow> string \<Rightarrow> py_error + tpart list" where
  "parse_template ng [] = Inr []"
| "parse_template ng (c # s) =
     (if c \<noteq> bslash then tcons (TLit [c]) (parse_template ng s)
      else case s of
        [] \<Rightarrow> Inl ReError
      | d # s1 \<Rightarrow>
          if d = CHR ''g'' then
            (case s1 of
               [] \<Rightarrow> Inl ReError
             | b # s2 \<Rightarrow>
                 let name = takeWhile (\<lambda>x. x \<noteq> CHR ''>'') s2;
                     rest = dropWhile (\<lambda>x. x \<noteq> CHR ''>'') s2
                 in if b \<noteq> CHR ''<'' \<or> rest = [] \<or> name = [] \<or> \<not> list_all is_digit name
                    then Inl ReError
                    else group_ref ng (foldl (\<lambda>a x. 10 * a + digit_val x) 0 name)
                           (parse_template ng (tl rest)))
          else if d = CHR ''0'' then
            (case s1 of
               [] \<Rightarrow> Inr [TLit [CHR 0x00]]
             | e # s2 \<Rightarrow>
                 if \<not> is_octal e then tcons (TLit [CHR 0x00]) (parse_template ng s1)
                 else (case s2 of
                   [] \<Rightarrow> Inr [TLit [char_of (digit_val e)]]
                 | f # s3 \<Rightarrow>
                     if \<not> is_octal f
                     then tcons (TLit [char_of (digit_val e)]) (parse_template ng s2)
                     else tcons (TLit [char_of ((8 * digit_val e + digit_val f) mod 256)])
                            (parse_template ng s3)))
          else if is_digit d then
            (case s1 of
               [] \<Rightarrow> group_ref ng (digit_val d) (Inr [])
             | e # s2 \<Rightarrow>
                 if \<not> is_digit e then group_ref ng (digit_val d) (parse_template ng s1)
                 else (case s2 of
                   [] \<Rightarrow> group_ref ng (10 * digit_val d + digit_val e) (Inr [])
                 | f # s3 \<Rightarrow>
                     if is_octal d \<and> is_octal e \<and> is_octal f
                     then (if 64 * digit_val d + 8 * digit_val e + digit_val f > 255
                           then Inl ReError
                           else tcons (TLit [char_of (64 * digit_val d + 8 * digit_val e
                                                        + digit_val f)])
                                  (parse_template ng s3))
                     else group_ref ng (10 * digit_val d + digit_val e) (parse_template ng s2)))
          else (case template_escape d of
                  Some x \<Rightarrow> tcons (TLit [x]) (parse_template ng s1)
                | None \<Rightarrow>
                    if is_alpha d then Inl ReError
                    else tcons (TLit [bslash, d]) (parse_template ng s1)))"
  by pat_completeness auto
termination
proof (relation "measure (\<lambda>(ng, s). length s)", goal_cases)
  case (3 ng c s d s1 b s2 name rest)
  have "length (dropWhile (\<lambda>x. x \<noteq> CHR ''>'') s2) \<le> length s2"
    by (rule length_dropWhile_le)
  with 3 show ?case by (cases "dropWhile (\<lambda>x. x \<noteq> CHR ''>'') s2") auto
qed auto

definition expand :: "tpart list \<Rightarrow> groups \<Rightarrow> string" where
  "expand t g = concat (map (\<lambda>p. case p of TLit w \<Rightarrow> w | TGrp n \<Rightarrow> group g n) t)"

definition re_sub :: "rx \<Rightarrow> nat \<Rightarrow> string \<Rightarrow> nat option \<Rightarrow> string \<Rightarrow> py_error + string" where
  \<comment> \<open>\<open>re.sub(pattern, repl, string, count)\<close> for a pattern with \<open>ng\<close> groups\<close>
  "re_sub r ng repl cnt s =
     (case parse_template ng repl of
        Inl e \<Rightarrow> Inl e
      | Inr t \<Rightarrow>
          (case scan r cnt s of
             (ms, rest) \<Rightarrow> Inr (concat (map (\<lambda>(pre, g). pre @ expand t g) ms) @ rest)))"

definition re_finditer :: "rx \<Rightarrow> string \<Rightarrow> groups list" where
  "re_finditer r s = map snd (fst (scan r None s))"

section \<open>Python strings and paths\<close>

definition char_upper :: "char \<Rightarrow> char" where
  "char_upper c = (if is_lower c then char_of ((of_char c :: int) - 32) else c)"

definition char_lower :: "char \<Rightarrow> char" where
  "char_lower c = (if is_upper c then char_of ((of_char c :: int) + 32) else c)"

definition py_upper :: "string \<Rightarrow> string" where
  \<comment> \<open>\<open>str.upper\<close> on ASCII text\<close>
  "py_upper s = map char_upper s"

definition py_lower :: "string \<Rightarrow> string" where
  "py_lower s = map char_lower s"

definition startswith :: "string \<Rightarrow> string \<Rightarrow> bool" where
  "startswith s pre = (take (length pre) s = pre)"

definition endswith :: "string \<Rightarrow> string \<Rightarrow> bool" where
  "endswith s suf = (length suf \<le> length s \<and> drop (length s - length suf) s = suf)"

fun str_in :: "string \<Rightarrow> string \<Rightarrow> bool" where
  \<comment> \<open>\<open>sub in s\<close> for two strings\<close>
  "str_in sub [] = (sub = [])"
| "str_in sub (c # s) = (startswith (c # s) sub \<or> str_in sub s)"

fun find_from :: "string \<Rightarrow> string \<Rightarrow> nat option" where
  \<comment> \<open>the index of the first occurrence of \<open>sub\<close> in \<open>s\<close>\<close>
  "find_from sub [] = (if sub = [] then Some 0 else None)"
| "find_from sub (c # s) =
     (if startswith (c # s) sub then Some 0 else map_option Suc (find_from sub s))"

definition py_find :: "string \<Rightarrow> string \<Rightarrow> nat \<Rightarrow> int" where
  \<comment> \<open>\<open>s.find(sub, start)\<close>: an index, or -1\<close>
  "py_find s sub start =
     (if start > length s then -1
      else case find_from sub (drop start s) of
             None \<Rightarrow> -1 | Some i \<Rightarrow> int (start + i))"

definition lstrip :: "(char \<Rightarrow> bool) \<Rightarrow> string \<Rightarrow> string" where
  "lstrip p s = dropWhile p s"

definition rstrip :: "(char \<Rightarrow> bool) \<Rightarrow> string \<Rightarrow> string" where
  "rstrip p s = rev (dropWhile p (rev s))"

definition strip :: "(char \<Rightarrow> bool) \<Rightarrow> string \<Rightarrow> string" where
  \<comment> \<open>\<open>s.strip()\<close> is \<open>strip is_space s\<close>; \<open>s.strip(cs)\<close> is \<open>strip (one_of cs) s\<close>\<close>
  "strip p s = rstrip p (lstrip p s)"

function py_replace :: "string \<Rightarrow> string \<Rightarrow> string \<Rightarrow> string" where
  \<comment> \<open>\<open>s.replace(old, new)\<close>\<close>
  "py_replace old new [] = (if old = [] then new else [])"
| "py_replace old new (c # s) =
     (if old = [] then new @ c # py_replace old new s
      else if startswith (c # s) old then new @ py_replace old new (drop (length old) (c # s))
      else c # py_replace old new s)"
  by pat_completeness auto
termination
  by (relation "measure (\<lambda>(old, new, s). length s)") (auto simp: startswith_def)

fun join :: "string \<Rightarrow> string list \<Rightarrow> string" where
  \<comment> \<open>\<open>sep.join(xs)\<close>\<close>
  "join sep [] = []"
| "join sep [x] = x"
| "join sep (x # y # xs) = x @ sep @ join sep (y # xs)"

definition digit_char :: "nat \<Rightarrow> char" where
  "digit_char d = ''0123456789'' ! d"

function str_digits :: "int \<Rightarrow> string" where
  \<comment> \<open>the decimal digits of \<open>n \<ge> 0\<close>\<close>
  "str_digits n =
     (if n < 10 then [digit_char (nat n)]
      else str_digits (n div 10) @ [digit_char (nat (n mod 10))])"
  by pat_completeness auto
termination
  by (relation "measure nat") auto

declare str_digits.simps [simp del]

definition str_int :: "int \<Rightarrow> string" where
  \<comment> \<open>\<open>str(n)\<close> for an integer\<close>
  "str_int i = (if i < 0 then CHR ''-'' # str_digits (- i) else str_digits i)"

definition path_join2 :: "string \<Rightarrow> string \<Rightarrow> string" where
  "path_join2 a b =
     (if startswith b ''/'' then b
      else if a = [] \<or> endswith a ''/'' then a @ b
      else a @ ''/'' @ b)"

definition path_join :: "string \<Rightarrow> string list \<Rightarrow> string" where
  \<comment> \<open>\<open>os.path.join(a, *p)\<close> on POSIX\<close>
  "path_join a p = foldl path_join2 a p"

definition after_last_slash :: "string \<Rightarrow> nat" where
  \<comment> \<open>\<open>p.rfind('/') + 1\<close>\<close>
  "after_last_slash p = length p - length (takeWhile (\<lambda>c. c \<noteq> CHR ''/'') (rev p))"

definition path_basename :: "string \<Rightarrow> string" where
  "path_basename p = drop (after_last_slash p) p"

definition path_dirname :: "string \<Rightarrow> string" where
  "path_dirname p =
     (let h = take (after_last_slash p) p
      in if h \<noteq> [] \<and> h \<noteq> replicate (length h) (CHR ''/'')
         then rstrip (\<lambda>c. c = CHR ''/'') h else h)"

section \<open>YAML values and Python's dynamic operations on them\<close>

text \<open>
  What \<open>yaml.safe_load\<close> returns, for documents of nulls, booleans, integers, strings,
  sequences and mappings with string keys; \<open>YNull\<close> is Python's \<open>None\<close>. An operation
  that Python refuses for a value of the wrong type returns the exception.
\<close>

datatype yaml =
    YNull
  | YBool bool
  | YInt int
  | YStr string
  | YList "yaml list"
  | YMap "(string \<times> yaml) list"

fun truthy :: "yaml \<Rightarrow> bool" where
  "truthy YNull = False"
| "truthy (YBool b) = b"
| "truthy (YInt i) = (i \<noteq> 0)"
| "truthy (YStr s) = (s \<noteq> [])"
| "truthy (YList xs) = (xs \<noteq> [])"
| "truthy (YMap m) = (m \<noteq> [])"

fun py_get :: "yaml \<Rightarrow> string \<Rightarrow> yaml \<Rightarrow> py_error + yaml" where
  \<comment> \<open>\<open>d.get(key, default)\<close>\<close>
  "py_get (YMap m) k d = Inr (case map_of m k of Some v \<Rightarrow> v | None \<Rightarrow> d)"
| "py_get _ k d = Inl AttributeError"

fun py_iter :: "yaml \<Rightarrow> py_error + yaml list" where
  \<comment> \<open>the items a \<open>for\<close> loop visits\<close>
  "py_iter (YList xs) = Inr xs"
| "py_iter (YStr s) = Inr (map (\<lambda>c. YStr [c]) s)"
| "py_iter (YMap m) = Inr (map (\<lambda>(k, v). YStr k) m)"
| "py_iter _ = Inl TypeError"

fun str_in_yaml :: "string \<Rightarrow> yaml \<Rightarrow> py_error + bool" where
  \<comment> \<open>\<open>s in v\<close> for a string \<open>s\<close>\<close>
  "str_in_yaml s (YStr t) = Inr (str_in s t)"
| "str_in_yaml s (YList xs) = Inr (YStr s \<in> set xs)"
| "str_in_yaml s (YMap m) = Inr (s \<in> fst ` set m)"
| "str_in_yaml s _ = Inl TypeError"

fun yaml_in_str :: "yaml \<Rightarrow> string \<Rightarrow> py_error + bool" where
  \<comment> \<open>\<open>v in s\<close> for a string \<open>s\<close>\<close>
  "yaml_in_str (YStr t) s = Inr (str_in t s)"
| "yaml_in_str _ s = Inl TypeError"

fun int_eq_yaml :: "int \<Rightarrow> yaml \<Rightarrow> bool" where
  \<comment> \<open>\<open>i == v\<close> for an integer \<open>i\<close>\<close>
  "int_eq_yaml i (YInt j) = (i = j)"
| "int_eq_yaml i (YBool b) = (i = (if b then 1 else 0))"
| "int_eq_yaml i _ = False"

section \<open>Malformed command detection and auto-correction\<close>

definition test_flag :: "string \<Rightarrow> rx list" where
  \<comment> \<open>\<open>test\s+-[flags]\s+\<close>\<close>
  "test_flag flags = [Lit ''test'', Plus is_space, Lit ''-'', Cls (one_of flags), Plus is_space]"

definition test_f :: "rx list" where
  \<comment> \<open>\<open>test\s+-f\s+\<close>\<close>
  "test_f = [Lit ''test'', Plus is_space, Lit ''-f'', Plus is_space]"

definition angle_name :: "char \<Rightarrow> bool" where
  \<comment> \<open>\<open>[a-z_-]\<close>\<close>
  "angle_name c = (is_lower c \<or> c = CHR ''_'' \<or> c = CHR ''-'')"

definition brace_name :: "char \<Rightarrow> bool" where
  \<comment> \<open>\<open>[a-z_]\<close>\<close>
  "brace_name c = (is_lower c \<or> c = CHR ''_'')"

definition angle_placeholder :: "rx list" where
  \<comment> \<open>\<open><[a-z_-]+>\<close>\<close>
  "angle_placeholder = [Lit ''<'', Plus angle_name, Lit ''>'']"

definition echo_pass :: "rx list" where
  \<comment> \<open>\<open>&&\s*echo\s+"?PASS"?\<close>\<close>
  "echo_pass = [Lit ''&&'', Star is_space, Lit ''echo'', Plus is_space,
                Opt (\<lambda>c. c = dquote), Lit ''PASS'', Opt (\<lambda>c. c = dquote)]"

definition git_ls_files :: "rx list" where
  \<comment> \<open>\<open>git\s+ls-files\s+--error-unmatch\s+\<close>\<close>
  "git_ls_files = [Lit ''git'', Plus is_space, Lit ''ls-files'', Plus is_space,
                   Lit ''--error-unmatch'', Plus is_space]"

definition MALFORMED_PATTERNS :: "(rx \<times> string) list" where
  "MALFORMED_PATTERNS =
     [(seqs (test_flag ''efds'' @
         [Grp 1 (alts [''ls'', ''cat'', ''grep'', ''find'', ''echo'', ''test'', ''python'',
                       ''python3'']),
          Cls is_space]),
       ''Shell command used as file path''),
      (seqs angle_placeholder, ''Unsubstituted template variable''),
      (seqs [Lit ''{'', Plus brace_name, Lit ''}''], ''Unsubstituted template placeholder''),
      (seqs (test_f @ [Plus non_space, Lit ''/'', Eos]),
       ''Using -f on directory path (should be -d)'')]"

definition dir_pattern :: rx where
  \<comment> \<open>\<open>test\s+-f\s+(\S+/)\s*&&\<close>\<close>
  "dir_pattern =
     seqs (test_f @ [Grp 1 (Seq (Plus non_space) (Lit ''/'')), Star is_space, Lit ''&&''])"

definition dir_sub_pattern :: rx where
  \<comment> \<open>\<open>test\s+-f\s+(\S+/)\<close>\<close>
  "dir_sub_pattern = seqs (test_f @ [Grp 1 (Seq (Plus non_space) (Lit ''/''))])"

definition wildcard_path :: rx where
  \<comment> \<open>\<open>(\S*\*\S*)\<close>\<close>
  "wildcard_path = Grp 1 (seqs [Star non_space, Lit ''*'', Star non_space])"

definition wildcard_pattern :: rx where
  \<comment> \<open>\<open>test\s+-[fdse]\s+(\S*\*\S*)\s*&&\s*echo\s+"?PASS"?\<close>\<close>
  "wildcard_pattern = seqs (test_flag ''fdse'' @ [wildcard_path, Star is_space] @ echo_pass)"

definition git_wildcard_pattern :: "rx list" where
  \<comment> \<open>\<open>git\s+ls-files\s+--error-unmatch\s+(\S*\*\S*)\<close>\<close>
  "git_wildcard_pattern = git_ls_files @ [wildcard_path]"

definition comment_pattern :: rx where
  \<comment> \<open>\<open>test\s+-([fd])\s+#\s*(\S+)\<close>\<close>
  "comment_pattern =
     seqs [Lit ''test'', Plus is_space, Lit ''-'', Grp 1 (Cls (one_of ''fd'')), Plus is_space,
           Lit ''#'', Star is_space, Grp 2 (Plus non_space)]"

definition placeholder_path :: "rx list" where
  \<comment> \<open>\<open>/?(\S*)<[a-z_-]+>(\S*)\<close>\<close>
  "placeholder_path =
     [Opt (\<lambda>c. c = CHR ''/''), Grp 1 (Star non_space)] @ angle_placeholder @
     [Grp 2 (Star non_space)]"

definition placeholder_pattern :: "rx list" where
  \<comment> \<open>\<open>test\s+-[fdse]\s+/?(\S*)<[a-z_-]+>(\S*)\<close>\<close>
  "placeholder_pattern = test_flag ''fdse'' @ placeholder_path"

definition git_placeholder_pattern :: "rx list" where
  \<comment> \<open>\<open>git\s+ls-files\s+--error-unmatch\s+/?(\S*)<[a-z_-]+>(\S*)\<close>\<close>
  "git_placeholder_pattern = git_ls_files @ placeholder_path"

definition multi_cmd_pattern :: rx where
  \<comment> \<open>\<open>test\s+-[fd]\s+(ls|cat|grep|find)\s+\<close>\<close>
  "multi_cmd_pattern =
     seqs (test_flag ''fd'' @ [Grp 1 (alts [''ls'', ''cat'', ''grep'', ''find'']), Plus is_space])"

definition abs_path_pattern :: rx where
  \<comment> \<open>\<open>test\s+-([fd])\s+/([A-Za-z])\<close>\<close>
  "abs_path_pattern =
     seqs [Lit ''test'', Plus is_space, Lit ''-'', Grp 1 (Cls (one_of ''fd'')), Plus is_space,
           Lit ''/'', Grp 2 (Cls is_alpha)]"

definition wc_pattern :: rx where
  \<comment> \<open>\<open>test\s+-[fd]\s+wc\s+-l\s+\<close>\<close>
  "wc_pattern = seqs (test_flag ''fd'' @ [Lit ''wc'', Plus is_space, Lit ''-l'', Plus is_space])"

definition quoted_pass :: string where
  "quoted_pass = [dquote] @ ''PASS'' @ [dquote]"

definition searches :: "rx \<Rightarrow> string \<Rightarrow> bool" where
  \<comment> \<open>\<open>re.search(pattern, s)\<close> as a condition\<close>
  "searches r s = (re_search r s \<noteq> None)"

text \<open>
  The state of \<open>auto_correct_command\<close> between two rules is \<open>(corrected, notes)\<close>. A rule
  whose replacement holds a path of the command can raise in \<open>re.sub\<close>.
\<close>

type_synonym cstate = "string \<times> string list"

definition fix_dir :: "cstate \<Rightarrow> py_error + cstate" where
  \<comment> \<open>Pattern 1: \<open>test -f\<close> on directory paths (ending in /)\<close>
  "fix_dir = (\<lambda>(corrected, notes).
     if searches dir_pattern corrected then
       (case re_sub dir_sub_pattern 1 (''test -d '' @ [bslash] @ ''1'') None corrected of
          Inl e \<Rightarrow> Inl e
        | Inr c \<Rightarrow> Inr (c, notes @ [''Changed -f to -d for directory path'']))
     else Inr (corrected, notes))"

definition fix_wildcard :: "cstate \<Rightarrow> py_error + cstate" where
  \<comment> \<open>Pattern 2: wildcards in a test command\<close>
  "fix_wildcard = (\<lambda>(corrected, notes).
     case re_search wildcard_pattern corrected of
       Some (i, n, g) \<Rightarrow>
         (case re_sub wildcard_pattern 1
                 (''ls '' @ group g 1 @ '' >/dev/null 2>&1 && echo '' @ quoted_pass)
                 None corrected of
            Inl e \<Rightarrow> Inl e
          | Inr c \<Rightarrow> Inr (c, notes @ [''Converted wildcard test to ls command'']))
     | None \<Rightarrow> Inr (corrected, notes))"

definition fix_git_wildcard :: "cstate \<Rightarrow> py_error + cstate" where
  \<comment> \<open>Pattern 2b: wildcards in \<open>git ls-files\<close>\<close>
  "fix_git_wildcard = (\<lambda>(corrected, notes).
     case re_search (seqs git_wildcard_pattern) corrected of
       Some (i, n, g) \<Rightarrow>
         (case re_sub (seqs (git_wildcard_pattern @ [Star not_nl] @ echo_pass)) 1
                 (''ls '' @ group g 1 @ '' >/dev/null 2>&1 && echo '' @ quoted_pass)
                 None corrected of
            Inl e \<Rightarrow> Inl e
          | Inr c \<Rightarrow> Inr (c, notes @ [''Converted git ls-files wildcard to ls command'']))
     | None \<Rightarrow> Inr (corrected, notes))"

definition fix_comment :: "cstate \<Rightarrow> py_error + cstate" where
  \<comment> \<open>Pattern 3: comment characters in paths\<close>
  "fix_comment = (\<lambda>(corrected, notes).
     if searches comment_pattern corrected then
       (case re_sub comment_pattern 2 (''test -'' @ [bslash] @ ''1 '' @ [bslash] @ ''2'')
               None corrected of
          Inl e \<Rightarrow> Inl e
        | Inr c \<Rightarrow> Inr (c, notes @ [''Removed comment character from path'']))
     else Inr (corrected, notes))"

definition fix_placeholder :: "cstate \<Rightarrow> py_error + cstate" where
  \<comment> \<open>Pattern 4: placeholder variables, test the parent directory\<close>
  "fix_placeholder = (\<lambda>(corrected, notes).
     case re_search (seqs placeholder_pattern) corrected of
       Some (i, n, g) \<Rightarrow>
         (let parent_path = rstrip (\<lambda>c. c = CHR ''/'') (group g 1)
          in if parent_path \<noteq> [] then
               (case re_sub (seqs (placeholder_pattern @ [Star is_space] @ echo_pass)) 2
                       (''test -d '' @ parent_path @ ''/ && echo '' @ quoted_pass)
                       None corrected of
                  Inl e \<Rightarrow> Inl e
                | Inr c \<Rightarrow>
                    Inr (c, notes @ [''Replaced placeholder with parent directory test: ''
                                      @ parent_path @ ''/'']))
             else Inr (corrected, notes))
     | None \<Rightarrow> Inr (corrected, notes))"

definition fix_git_placeholder :: "cstate \<Rightarrow> py_error + cstate" where
  \<comment> \<open>Pattern 4b: placeholder variables in \<open>git ls-files\<close>\<close>
  "fix_git_placeholder = (\<lambda>(corrected, notes).
     case re_search (seqs git_placeholder_pattern) corrected of
       Some (i, n, g) \<Rightarrow>
         (let parent_path = rstrip (\<lambda>c. c = CHR ''/'') (group g 1)
          in if parent_path \<noteq> [] then
               (case re_sub (seqs (git_placeholder_pattern @ [Star not_nl] @ echo_pass)) 2
                       (''ls '' @ parent_path @ ''/ >/dev/null 2>&1 && echo '' @ quoted_pass)
                       None corrected of
                  Inl e \<Rightarrow> Inl e
                | Inr c \<Rightarrow>
                    Inr (c, notes @ [''Replaced git ls-files placeholder with ls: ''
                                      @ parent_path @ ''/'']))
             else Inr (corrected, notes))
     | None \<Rightarrow> Inr (corrected, notes))"

definition fix_multi_cmd :: "cstate \<Rightarrow> py_error + cstate" where
  \<comment> \<open>Pattern 5: multi-part commands used as paths\<close>
  "fix_multi_cmd = (\<lambda>(corrected, notes).
     if searches multi_cmd_pattern corrected then
       (case re_sub (seqs (test_flag ''fd'')) 0 [] (Some 1) corrected of
          Inl e \<Rightarrow> Inl e
        | Inr c \<Rightarrow> Inr (c, notes @ [''Removed incorrect test wrapper from command'']))
     else Inr (corrected, notes))"

definition fix_abs_path :: "cstate \<Rightarrow> py_error + cstate" where
  \<comment> \<open>Pattern 6: paths starting with /\<close>
  "fix_abs_path = (\<lambda>(corrected, notes).
     if searches abs_path_pattern corrected then
       (case re_sub abs_path_pattern 2 (''test -'' @ [bslash] @ ''1 '' @ [bslash] @ ''2'')
               None corrected of
          Inl e \<Rightarrow> Inl e
        | Inr c \<Rightarrow> Inr (c, notes @ [''Converted absolute path to relative'']))
     else Inr (corrected, notes))"

definition fix_wc :: "cstate \<Rightarrow> py_error + cstate" where
  \<comment> \<open>Pattern 7: \<open>wc -l\<close> incorrectly placed in test\<close>
  "fix_wc = (\<lambda>(corrected, notes).
     if searches wc_pattern corrected then
       (case re_sub (seqs (test_flag ''fd'')) 0 [] (Some 1) corrected of
          Inl e \<Rightarrow> Inl e
        | Inr c \<Rightarrow> Inr (c, notes @ [''Removed incorrect test wrapper from wc command'']))
     else Inr (corrected, notes))"

fun chain :: "('a \<Rightarrow> py_error + 'a) list \<Rightarrow> 'a \<Rightarrow> py_error + 'a" where
  \<comment> \<open>one statement after the other; an exception ends the run\<close>
  "chain [] x = Inr x"
| "chain (f # fs) x = (case f x of Inl e \<Rightarrow> Inl e | Inr y \<Rightarrow> chain fs y)"

definition auto_correct_command :: "string \<Rightarrow> py_error + string \<times> bool \<times> string" where
  \<comment> \<open>returns \<open>(corrected_command, was_corrected, correction_note)\<close>\<close>
  "auto_correct_command command =
     (case chain [fix_dir, fix_wildcard, fix_git_wildcard, fix_comment, fix_placeholder,
                  fix_git_placeholder, fix_multi_cmd, fix_abs_path, fix_wc] (command, []) of
        Inl e \<Rightarrow> Inl e
      | Inr (corrected, notes) \<Rightarrow> Inr (corrected, corrected \<noteq> command, join ''; '' notes))"

fun first_match :: "(rx \<times> string) list \<Rightarrow> string \<Rightarrow> string option" where
  \<comment> \<open>the reason of the first pattern, in list order, that is found in the command\<close>
  "first_match [] command = None"
| "first_match ((pattern, reason) # ps) command =
     (if searches pattern command then Some reason else first_match ps command)"

definition split_first :: "string \<Rightarrow> py_error + string" where
  \<comment> \<open>\<open>s.split()[0]\<close>: the first word between whitespace\<close>
  "split_first s =
     (case dropWhile is_space s of [] \<Rightarrow> Inl IndexError
      | c # t \<Rightarrow> Inr (takeWhile non_space (c # t)))"

definition shell_commands :: "string list" where
  "shell_commands =
     [''ls'', ''cat'', ''grep'', ''find'', ''echo'', ''test'', ''python'', ''python3'', ''wc'']"

definition tested_path_pattern :: rx where
  \<comment> \<open>\<open>test\s+-[efds]\s+(\S+)\<close>\<close>
  "tested_path_pattern = seqs (test_flag ''efds'' @ [Grp 1 (Plus non_space)])"

definition is_malformed_command :: "string \<Rightarrow> py_error + bool \<times> string" where
  \<comment> \<open>returns \<open>(is_malformed, reason)\<close>\<close>
  "is_malformed_command command =
     (case first_match MALFORMED_PATTERNS command of
        Some reason \<Rightarrow> Inr (True, reason)
      | None \<Rightarrow>
          if str_in ''test -'' command then
            (case re_search tested_path_pattern command of
               None \<Rightarrow> Inr (False, [])
             | Some (i, n, g) \<Rightarrow>
                 let path = group g 1
                 in if str_in '' '' path \<and> \<not> startswith path [dquote]
                    then Inr (True, ''Path contains unquoted spaces'')
                    else
                      (case (if str_in ''/'' path
                             then Inr (takeWhile (\<lambda>c. c \<noteq> CHR ''/'') path)
                             else if str_in '' '' path then split_first path else Inr path) of
                         Inl e \<Rightarrow> Inl e
                       | Inr first_word \<Rightarrow>
                           if py_lower first_word \<in> set shell_commands
                           then Inr (True, ''Path starts with shell command '' @ [CHR 0x27]
                                            @ first_word @ [CHR 0x27])
                           else Inr (False, [])))
          else Inr (False, []))"

section \<open>Floating point\<close>

text \<open>
  Python's \<open>float\<close> is IEEE 754 binary64. A finite double is a rational; \<open>round_double\<close>
  rounds a rational to the nearest double, ties to even (53 significant bits, least
  exponent -1022), which is what \<open>int / int\<close> and \<open>float * float\<close> return for results
  below the overflow threshold. \<open>int(x)\<close> truncates towards zero.
\<close>

definition pow2 :: "int \<Rightarrow> rat" where
  "pow2 k = (if k \<ge> 0 then 2 ^ nat k else 1 / 2 ^ nat (- k))"

definition round_half_even :: "rat \<Rightarrow> int" where
  "round_half_even q =
     (let f = \<lfloor>q\<rfloor>; r = q - of_int f
      in if r < 1 / 2 then f else if r > 1 / 2 then f + 1 else if even f then f else f + 1)"

function bit_length :: "int \<Rightarrow> int" where
  \<comment> \<open>\<open>a.bit_length()\<close>\<close>
  "bit_length a = (if a \<le> 0 then 0 else 1 + bit_length (a div 2))"
  by pat_completeness auto
termination
  by (relation "measure nat") auto

declare bit_length.simps [simp del]

definition ilog2 :: "rat \<Rightarrow> int" where
  \<comment> \<open>\<open>\<lfloor>log\<^sub>2 q\<rfloor>\<close> for \<open>q > 0\<close>\<close>
  "ilog2 q =
     (case quotient_of q of (a, b) \<Rightarrow>
        let d = bit_length a - bit_length b
        in if pow2 d \<le> q then d else d - 1)"

definition round_double :: "rat \<Rightarrow> rat" where
  "round_double q =
     (if q = 0 then 0
      else let u = pow2 (max (ilog2 \<bar>q\<bar>) (- 1022) - 52)
           in sgn q * of_int (round_half_even (\<bar>q\<bar> / u)) * u)"

definition py_truediv :: "int \<Rightarrow> int \<Rightarrow> rat" where
  \<comment> \<open>\<open>a / b\<close> for integers, \<open>b \<noteq> 0\<close>\<close>
  "py_truediv a b = round_double (of_int a / of_int b)"

definition py_fmul :: "rat \<Rightarrow> int \<Rightarrow> rat" where
  \<comment> \<open>\<open>x * k\<close> for a float and an integer below \<open>2^53\<close>\<close>
  "py_fmul x k = round_double (x * of_int k)"

definition py_int :: "rat \<Rightarrow> int" where
  \<comment> \<open>\<open>int(x)\<close>\<close>
  "py_int x = (if x \<ge> 0 then \<lfloor>x\<rfloor> else \<lceil>x\<rceil>)"

section \<open>The operating system and the libraries\<close>

text \<open>
  What the script asks of its surroundings is a parameter of the model: a record of
  functions over a state \<open>'w\<close> of the outside world (the files, the clock, whatever
  the shell commands touch). Running a command and writing a file return the next
  state. \<open>read_text\<close> returns the text of a file, or the message of the exception.
\<close>

datatype proc_result =
    Completed int string string
  | TimeoutExpired
  | Failed string

record check_result =
  cr_name :: yaml
  cr_command :: string
  cr_corrected_command :: "string option"
  cr_correction_note :: "string option"
  cr_expected :: yaml
  cr_actual :: int
  cr_output :: string
  cr_passed :: bool
  cr_duration_ms :: int
  cr_error :: yaml
  cr_malformed :: bool
  cr_was_auto_corrected :: bool

record evidence =
  ev_issue_id :: string
  ev_lane :: yaml
  ev_timestamp :: string
  ev_all_passed :: bool
  ev_passed_checks :: int
  ev_failed_checks :: int
  ev_total_checks :: int
  ev_confidence_score :: int
  ev_verification_pattern :: yaml
  ev_verification_depth :: yaml
  ev_affected_paths :: "string list"
  ev_checks :: "check_result list"

record 'w sys =
  path_exists :: "'w \<Rightarrow> string \<Rightarrow> bool"
  path_isdir :: "'w \<Rightarrow> string \<Rightarrow> bool"
  glob_glob :: "'w \<Rightarrow> string \<Rightarrow> string list"
  read_text :: "'w \<Rightarrow> string \<Rightarrow> string + string"
  write_text :: "'w \<Rightarrow> string \<Rightarrow> string \<Rightarrow> string option \<times> 'w"
  write_json :: "'w \<Rightarrow> string \<Rightarrow> string \<Rightarrow> evidence \<Rightarrow> string option \<times> 'w"
  subprocess_run :: "'w \<Rightarrow> string \<Rightarrow> proc_result \<times> 'w"
  yaml_safe_load :: "string \<Rightarrow> yaml option"
  py_repr :: "yaml \<Rightarrow> string"
  now_us :: "'w \<Rightarrow> int"
  now_isoformat :: "'w \<Rightarrow> string"
  now_stamp :: "'w \<Rightarrow> string"
  now_date :: "'w \<Rightarrow> string"

text \<open>
  \<^item> \<open>write_text w path text\<close> is \<open>open(path, 'w').write(text)\<close>: the message of the
    exception if there is one, and the next state.
  \<^item> \<open>write_json w dir path data\<close> is \<open>os.makedirs(dir, exist_ok=True)\<close> and then
    \<open>json.dump(data, open(path, 'w'), indent=2)\<close>.
  \<^item> \<open>subprocess_run w command\<close> is \<open>subprocess.run(command, shell=True,
    capture_output=True, text=True, timeout=30)\<close>: return code, stdout and stderr.
  \<^item> \<open>yaml_safe_load text\<close> is \<open>None\<close> when \<open>yaml.safe_load\<close> raises \<open>YAMLError\<close>.
  \<^item> \<open>py_repr v\<close> is \<open>str(v)\<close> for a list or a dictionary.
  \<^item> \<open>now_us w\<close> is \<open>datetime.now()\<close> in microseconds; \<open>now_isoformat\<close>, \<open>now_stamp\<close> and
    \<open>now_date\<close> are its \<open>isoformat()\<close>, \<open>strftime('%Y%m%d_%H%M%S')\<close> and
    \<open>strftime("%Y-%m-%d")\<close>.

  The script's own writes are kept in a log, in order: the path and what was written.
\<close>

datatype written = Text string | Json evidence

type_synonym 'w state = "'w \<times> (string \<times> written) list"

definition and_then :: "'e + 'a \<Rightarrow> ('a \<Rightarrow> 'e + 'b) \<Rightarrow> 'e + 'b" where
  \<comment> \<open>the next statement runs unless the one before raised\<close>
  "and_then m f = (case m of Inl e \<Rightarrow> Inl e | Inr x \<Rightarrow> f x)"

definition type_name :: "yaml \<Rightarrow> string" where
  "type_name v =
     (case v of YNull \<Rightarrow> ''NoneType'' | YBool b \<Rightarrow> ''bool'' | YInt i \<Rightarrow> ''int''
      | YStr t \<Rightarrow> ''str'' | YList xs \<Rightarrow> ''list'' | YMap m \<Rightarrow> ''dict'')"

definition py_str :: "'w sys \<Rightarrow> yaml \<Rightarrow> string" where
  \<comment> \<open>\<open>str(v)\<close>\<close>
  "py_str sys v =
     (case v of YNull \<Rightarrow> ''None'' | YBool b \<Rightarrow> (if b then ''True'' else ''False'')
      | YInt i \<Rightarrow> str_int i | YStr t \<Rightarrow> t
      | YList xs \<Rightarrow> py_repr sys v | YMap m \<Rightarrow> py_repr sys v)"

fun py_get_key :: "yaml \<Rightarrow> yaml \<Rightarrow> yaml \<Rightarrow> py_error + yaml" where
  \<comment> \<open>\<open>d.get(key, default)\<close> for a key that is itself a YAML value\<close>
  "py_get_key d (YStr k) v = py_get d k v"
| "py_get_key (YMap m) (YList xs) v = Inl TypeError"
| "py_get_key (YMap m) (YMap n) v = Inl TypeError"
| "py_get_key (YMap m) k v = Inr v"
| "py_get_key d k v = Inl AttributeError"

definition slice :: "string \<Rightarrow> nat \<Rightarrow> int \<Rightarrow> string" where
  \<comment> \<open>\<open>s[a:b]\<close> for \<open>b \<ge> 0\<close>\<close>
  "slice s a b = take (nat b - a) (drop a s)"

fun str_le :: "string \<Rightarrow> string \<Rightarrow> bool" where
  \<comment> \<open>\<open>a <= b\<close> on strings: by code point, a prefix first\<close>
  "str_le [] b = True"
| "str_le (x # a) [] = False"
| "str_le (x # a) (y # b) =
     ((of_char x :: int) < of_char y \<or> (x = y \<and> str_le a b))"

fun insert_sorted :: "string \<Rightarrow> string list \<Rightarrow> string list" where
  "insert_sorted x [] = [x]"
| "insert_sorted x (y # ys) = (if str_le x y then x # y # ys else y # insert_sorted x ys)"

definition py_sorted :: "string list \<Rightarrow> string list" where
  \<comment> \<open>\<open>sorted(xs)\<close>\<close>
  "py_sorted xs = foldr insert_sorted xs []"

section \<open>Configuration\<close>

definition ISSUES_DIR :: string where
  "ISSUES_DIR = ''issues''"

definition PATTERNS_FILE :: string where
  "PATTERNS_FILE = ''tools/verification_patterns.yaml''"

definition EVIDENCE_DIR :: string where
  "EVIDENCE_DIR = ''LogBook/verification/evidence''"

section \<open>Patterns loading and frontmatter parsing\<close>

definition load_patterns :: "'w sys \<Rightarrow> 'w \<Rightarrow> py_error + yaml" where
  "load_patterns sys w =
     (if \<not> path_exists sys w PATTERNS_FILE then Inr (YMap [(''patterns'', YMap [])])
      else case read_text sys w PATTERNS_FILE of
             Inl msg \<Rightarrow> Inl OSError
           | Inr text \<Rightarrow>
               (case yaml_safe_load sys text of None \<Rightarrow> Inl YAMLError | Some v \<Rightarrow> Inr v))"

definition frontmatter_end :: string where
  "frontmatter_end = [nl] @ ''---'' @ [nl]"

definition parse_frontmatter :: "'w sys \<Rightarrow> 'w \<Rightarrow> string \<Rightarrow> yaml" where
  \<comment> \<open>the frontmatter of the file, \<open>YNull\<close> where the source returns \<open>None\<close>\<close>
  "parse_frontmatter sys w filepath =
     (case read_text sys w filepath of
        Inl msg \<Rightarrow> YNull
      | Inr content \<Rightarrow>
          if \<not> startswith content ''---'' then YNull
          else let end = py_find content frontmatter_end 3
               in if end < 0 then YNull
                  else case yaml_safe_load sys (slice content 4 end) of
                         None \<Rightarrow> YNull
                       | Some v \<Rightarrow> v)"

record cmd_spec =
  cs_check :: string
  cs_name :: string
  cs_command :: string

definition commands_section_pattern :: rx where
  \<comment> \<open>\<open>\*\*Verification Commands.*?\*\*.*?```bash\n(.*?)```\<close> with \<open>re.DOTALL\<close>\<close>
  "commands_section_pattern =
     seqs [Lit ''**Verification Commands'', LazyStar any_char, Lit ''**'', LazyStar any_char,
           Lit (''```bash'' @ [nl]), Grp 1 (LazyStar any_char), Lit ''```'']"

definition check_pattern :: rx where
  \<comment> \<open>\<open># (Check \d+): ([^\n]+)\n([^\n]+)\<close>\<close>
  "check_pattern =
     seqs [Lit ''# '', Grp 1 (Seq (Lit ''Check '') (Plus is_digit)), Lit '': '',
           Grp 2 (Plus not_nl), Lit [nl], Grp 3 (Plus not_nl)]"

definition extract_verification_commands :: "string \<Rightarrow> cmd_spec list" where
  "extract_verification_commands content =
     (case re_search commands_section_pattern content of
        None \<Rightarrow> []
      | Some (i, n, g) \<Rightarrow>
          map (\<lambda>m. \<lparr>cs_check = group m 1,
                     cs_name = strip is_space (group m 2),
                     cs_command = strip is_space (group m 3)\<rparr>)
              (re_finditer check_pattern (group g 1)))"

definition expected_section_pattern :: rx where
  \<comment> \<open>\<open>\*\*Expected Outputs \(Machine-Readable\)\*\*.*?```yaml\n(.*?)```\<close> with \<open>re.DOTALL\<close>\<close>
  "expected_section_pattern =
     seqs [Lit ''**Expected Outputs (Machine-Readable)**'', LazyStar any_char,
           Lit (''```yaml'' @ [nl]), Grp 1 (LazyStar any_char), Lit ''```'']"

definition extract_expected_outputs :: "'w sys \<Rightarrow> string \<Rightarrow> yaml" where
  "extract_expected_outputs sys content =
     (case re_search expected_section_pattern content of
        None \<Rightarrow> YNull
      | Some (i, n, g) \<Rightarrow>
          (case yaml_safe_load sys (group g 1) of None \<Rightarrow> YNull | Some v \<Rightarrow> v))"

definition line_number_pattern :: rx where
  \<comment> \<open>\<open>:\d+.*$\<close>\<close>
  "line_number_pattern = seqs [Lit '':'', Plus is_digit, Star not_nl, Eos]"

definition referenced_path_pattern :: rx where
  \<comment> \<open>\<open>Referenced\s+path:\s*`?([^\s`\n]+)`?\<close>\<close>
  "referenced_path_pattern =
     seqs [Lit ''Referenced'', Plus is_space, Lit ''path:'', Star is_space,
           Opt (\<lambda>c. c = backtick),
           Grp 1 (Plus (\<lambda>c. \<not> is_space c \<and> c \<noteq> backtick \<and> c \<noteq> nl)),
           Opt (\<lambda>c. c = backtick)]"

definition evidence_path_pattern :: rx where
  \<comment> \<open>\<open>`([^`]+\.(py|yaml|yml|json|md|sh))`\<close>\<close>
  "evidence_path_pattern =
     seqs [Lit [backtick],
           Grp 1 (seqs [Plus (\<lambda>c. c \<noteq> backtick), Lit ''.'',
                        Grp 2 (alts [''py'', ''yaml'', ''yml'', ''json'', ''md'', ''sh''])]),
           Lit [backtick]]"

definition strip_line_number :: "string \<Rightarrow> string" where
  \<comment> \<open>\<open>re.sub(r':\d+.*$', '', path)\<close>; the empty replacement cannot raise\<close>
  "strip_line_number path =
     (case scan line_number_pattern None path of (ms, rest) \<Rightarrow> concat (map fst ms) @ rest)"

fun affected_paths :: "yaml list \<Rightarrow> py_error + string list" where
  "affected_paths [] = Inr []"
| "affected_paths (YStr path # ys) =
     (let clean = strip (\<lambda>c. c = backtick) (strip_line_number path)
      in case affected_paths ys of
           Inl e \<Rightarrow> Inl e
         | Inr ps \<Rightarrow>
             Inr (if str_in ''/'' clean \<and> \<not> startswith clean ''test'' then clean # ps else ps))"
| "affected_paths (y # ys) = Inl TypeError"

fun dedupe_paths :: "string list \<Rightarrow> string list \<Rightarrow> string list" where
  \<comment> \<open>the last loop of \<open>extract_target_paths\<close>, \<open>clean_paths\<close> so far as first argument\<close>
  "dedupe_paths clean_paths [] = clean_paths"
| "dedupe_paths clean_paths (path # ps) =
     (let clean = strip is_space path
      in if clean \<noteq> [] \<and> clean \<notin> set clean_paths \<and> str_in ''/'' clean
         then (let clean' = strip_line_number clean
               in dedupe_paths (if length clean' > 3 then clean_paths @ [clean'] else clean_paths) ps)
         else dedupe_paths clean_paths ps)"

definition extract_target_paths :: "yaml \<Rightarrow> string \<Rightarrow> py_error + string list" where
  "extract_target_paths frontmatter content =
     and_then (py_get frontmatter ''affected_paths'' (YList [])) (\<lambda>affected.
     and_then (py_iter affected) (\<lambda>items.
     and_then (affected_paths items) (\<lambda>from_frontmatter.
       let referenced = map (\<lambda>m. group m 1) (re_finditer referenced_path_pattern content);
           quoted = filter (str_in ''/'')
                      (map (\<lambda>m. group m 1) (re_finditer evidence_path_pattern content))
       in Inr (take 5 (dedupe_paths [] (from_frontmatter @ referenced @ quoted))))))"

section \<open>Check execution\<close>

definition run_command :: "'w sys \<Rightarrow> 'w \<Rightarrow> string \<Rightarrow> (int \<times> string) \<times> 'w" where
  \<comment> \<open>exit code and combined output; -1 when the command timed out or could not run\<close>
  "run_command sys w command =
     (case subprocess_run sys w command of
        (Completed returncode out err, w') \<Rightarrow> ((returncode, out @ err), w')
      | (TimeoutExpired, w') \<Rightarrow> ((- 1, ''Command timed out''), w')
      | (Failed msg, w') \<Rightarrow> ((- 1, msg), w'))"

definition elapsed_ms :: "int \<Rightarrow> int \<Rightarrow> int" where
  \<comment> \<open>\<open>int((now - start).total_seconds() * 1000)\<close>, both times in microseconds\<close>
  "elapsed_ms start now = py_int (py_fmul (py_truediv (now - start) 1000000) 1000)"

fun substitute_vars :: "'w sys \<Rightarrow> yaml \<Rightarrow> (string \<times> yaml) list \<Rightarrow> py_error + yaml" where
  \<comment> \<open>the template with \<open>{key}\<close> replaced by \<open>str(value)\<close>, key after key\<close>
  "substitute_vars sys template [] = Inr template"
| "substitute_vars sys (YStr result) ((key, val) # vs) =
     substitute_vars sys (YStr (py_replace (''{'' @ key @ ''}'') (py_str sys val) result)) vs"
| "substitute_vars sys template (v # vs) = Inl AttributeError"

definition default_allowed_checks :: yaml where
  "default_allowed_checks =
     YList [YStr ''existence'', YStr ''content_validation'', YStr ''git_tracking'']"

definition check_type :: "yaml \<Rightarrow> py_error + string" where
  \<comment> \<open>\<open>'existence' if 'exist' in name else 'content_validation'\<close>\<close>
  "check_type name =
     and_then (str_in_yaml ''exist'' name) (\<lambda>b.
       Inr (if b then ''existence'' else ''content_validation''))"

definition skipped :: "yaml \<Rightarrow> yaml \<Rightarrow> yaml \<Rightarrow> py_error + bool" where
  \<comment> \<open>\<open>check_type not in allowed_checks and depth != "DEEP"\<close> for the check named \<open>name\<close>\<close>
  "skipped allowed_checks depth name =
     and_then (check_type name) (\<lambda>t.
     and_then (str_in_yaml t allowed_checks) (\<lambda>allowed.
       Inr (\<not> allowed \<and> depth \<noteq> YStr ''DEEP'')))"

definition run_pattern_check ::
  "'w sys \<Rightarrow> (string \<times> yaml) list \<Rightarrow> yaml \<Rightarrow> 'w \<Rightarrow> py_error + check_result \<times> 'w" where
  \<comment> \<open>the body of the loop of \<open>run_pattern_checks\<close> for a check that is not skipped\<close>
  "run_pattern_check sys variables check w =
     and_then (py_get check ''name'' (YStr [])) (\<lambda>name.
     and_then (py_get check ''command'' (YStr [])) (\<lambda>template.
     and_then (substitute_vars sys template variables) (\<lambda>substituted.
     and_then (py_get check ''expected_exit'' (YInt 0)) (\<lambda>expected.
       case substituted of
         YStr command \<Rightarrow>
           (let start = now_us sys w
            in case run_command sys w command of
                 ((actual, output), w') \<Rightarrow>
                   let duration = elapsed_ms start (now_us sys w');
                       passed = int_eq_yaml actual expected
                   in and_then (py_get check ''failure_message'' (YStr [])) (\<lambda>failure_message.
                        Inr (\<lparr>cr_name = name, cr_command = command,
                               cr_corrected_command = None, cr_correction_note = None,
                               cr_expected = expected, cr_actual = actual,
                               cr_output = take 500 output, cr_passed = passed,
                               cr_duration_ms = duration,
                               cr_error = (if \<not> passed then failure_message else YStr []),
                               cr_malformed = False, cr_was_auto_corrected = False\<rparr>, w')))
       | _ \<Rightarrow> Inl TypeError))))"

fun pattern_loop ::
  "'w sys \<Rightarrow> (string \<times> yaml) list \<Rightarrow> yaml \<Rightarrow> yaml \<Rightarrow> yaml list \<Rightarrow> 'w
     \<Rightarrow> py_error + check_result list \<times> 'w" where
  "pattern_loop sys variables allowed_checks depth [] w = Inr ([], w)"
| "pattern_loop sys variables allowed_checks depth (check # checks) w =
     (case and_then (py_get check ''name'' (YStr [])) (skipped allowed_checks depth) of
        Inl e \<Rightarrow> Inl e
      | Inr True \<Rightarrow> pattern_loop sys variables allowed_checks depth checks w
      | Inr False \<Rightarrow>
          (case run_pattern_check sys variables check w of
             Inl e \<Rightarrow> Inl e
           | Inr (r, w') \<Rightarrow>
               (case pattern_loop sys variables allowed_checks depth checks w' of
                  Inl e \<Rightarrow> Inl e
                | Inr (rs, w'') \<Rightarrow> Inr (r # rs, w''))))"

definition pattern_checks :: "yaml \<Rightarrow> yaml \<Rightarrow> py_error + yaml" where
  \<comment> \<open>\<open>patterns.get('patterns', {}).get(pattern_name, {}).get('checks', [])\<close>\<close>
  "pattern_checks patterns pattern_name =
     and_then (py_get patterns ''patterns'' (YMap [])) (\<lambda>ps.
     and_then (py_get_key ps pattern_name (YMap [])) (\<lambda>pattern.
       py_get pattern ''checks'' (YList [])))"

definition allowed_at :: "yaml \<Rightarrow> yaml \<Rightarrow> py_error + yaml" where
  \<comment> \<open>\<open>patterns.get('depth_levels', {}).get(depth, {}).get('checks', [...])\<close>\<close>
  "allowed_at patterns depth =
     and_then (py_get patterns ''depth_levels'' (YMap [])) (\<lambda>depth_levels.
     and_then (py_get_key depth_levels depth (YMap [])) (\<lambda>level.
       py_get level ''checks'' default_allowed_checks))"

definition run_pattern_checks ::
  "'w sys \<Rightarrow> 'w \<Rightarrow> yaml \<Rightarrow> yaml \<Rightarrow> (string \<times> yaml) list \<Rightarrow> yaml
     \<Rightarrow> py_error + check_result list \<times> 'w" where
  "run_pattern_checks sys w pattern_name patterns variables depth =
     and_then (pattern_checks patterns pattern_name) (\<lambda>checks.
     and_then (allowed_at patterns depth) (\<lambda>allowed_checks.
     and_then (py_iter checks) (\<lambda>items.
       pattern_loop sys variables allowed_checks depth items w)))"

section \<open>Issue verification\<close>

definition find_issue_file :: "'w sys \<Rightarrow> 'w \<Rightarrow> string \<Rightarrow> py_error + string option" where
  "find_issue_file sys w issue_id =
     (case issue_id of
        [] \<Rightarrow> Inl IndexError
      | c # rest \<Rightarrow>
          let lane = py_upper [c];
              candidates =
                [path_join ISSUES_DIR [lane, issue_id @ ''.md''],
                 path_join ISSUES_DIR
                   [lane, lane @ ''-'' @ lstrip (\<lambda>x. x = CHR ''-'') rest @ ''.md'']]
          in case filter (path_exists sys w) candidates of
               path # _ \<Rightarrow> Inr (Some path)
             | [] \<Rightarrow>
                 (case glob_glob sys w (path_join ISSUES_DIR [lane, ''*'' @ issue_id @ ''*.md'']) of
                    m # _ \<Rightarrow> Inr (Some m)
                  | [] \<Rightarrow> Inr None))"

record outcome =
  issue_id :: string
  lane :: yaml
  status :: yaml
  pattern :: yaml
  depth :: yaml
  depends_on :: yaml
  unresolved_dependencies :: "string list"
  target_paths :: "string list"
  checks :: "check_result list"
  passed :: bool
  passed_count :: int
  failed_count :: int
  total_checks :: int
  confidence :: int
  timestamp :: string
  used_embedded_commands :: bool
  evidence_error :: "string option"
  status_updated :: bool
  update_error :: "string option"

datatype vresult =
    Failure string string
  | Outcome outcome

text \<open>
  \<open>Failure issue_id error\<close> is the dictionary \<open>{'issue_id', 'error', 'passed': False}\<close> that
  \<open>verify_issue\<close> returns when the record or its frontmatter cannot be read.
\<close>

definition result_passed :: "vresult \<Rightarrow> bool" where
  \<comment> \<open>\<open>result.get('passed', False)\<close>\<close>
  "result_passed r = (case r of Failure i e \<Rightarrow> False | Outcome out \<Rightarrow> passed out)"

definition has_error :: "vresult \<Rightarrow> bool" where
  \<comment> \<open>\<open>'error' in result\<close>\<close>
  "has_error r = (case r of Failure i e \<Rightarrow> True | Outcome out \<Rightarrow> False)"

definition dep_unresolved :: "'w sys \<Rightarrow> 'w \<Rightarrow> yaml \<Rightarrow> py_error + string list" where
  \<comment> \<open>what one declared dependency adds to \<open>unresolved_deps\<close>\<close>
  "dep_unresolved sys w dep =
     (case dep of
        YStr dep_id \<Rightarrow>
          and_then (find_issue_file sys w dep_id) (\<lambda>dep_file.
            case dep_file of
              Some file \<Rightarrow>
                let dep_frontmatter = parse_frontmatter sys w file
                in if truthy dep_frontmatter then
                     and_then (py_get dep_frontmatter ''status'' (YStr ''OPEN'')) (\<lambda>dep_status.
                       case dep_status of
                         YStr st \<Rightarrow> Inr (if py_upper st \<noteq> ''RESOLVED'' then [dep_id] else [])
                       | _ \<Rightarrow> Inl AttributeError)
                   else Inr []
            | None \<Rightarrow> Inr [dep_id @ '' (not found)''])
      | _ \<Rightarrow> Inl TypeError)"

fun deps_loop :: "'w sys \<Rightarrow> 'w \<Rightarrow> yaml list \<Rightarrow> py_error + string list" where
  "deps_loop sys w [] = Inr []"
| "deps_loop sys w (dep # deps) =
     (case dep_unresolved sys w dep of
        Inl e \<Rightarrow> Inl e
      | Inr u \<Rightarrow> (case deps_loop sys w deps of Inl e \<Rightarrow> Inl e | Inr us \<Rightarrow> Inr (u @ us)))"

definition check_dependencies :: "'w sys \<Rightarrow> 'w \<Rightarrow> yaml \<Rightarrow> py_error + string list" where
  \<comment> \<open>\<open>unresolved_deps\<close> for the declared \<open>depends_on\<close>\<close>
  "check_dependencies sys w deps =
     (if truthy deps then and_then (py_iter deps) (deps_loop sys w) else Inr [])"

definition check_passed :: "yaml \<Rightarrow> string \<Rightarrow> int \<Rightarrow> string \<Rightarrow> py_error + bool" where
  \<comment> \<open>\<open>passed\<close> of an executed embedded check\<close>
  "check_passed expected_outputs check actual_exit output =
     (if truthy expected_outputs then
        (let check_num = py_replace ''Check '' ''check_'' check
         in and_then (py_get expected_outputs ''expected_results'' (YMap [])) (\<lambda>results.
            and_then (py_get results check_num (YMap [])) (\<lambda>expected.
            and_then (py_get expected ''exit_code'' (YInt 0)) (\<lambda>expected_exit.
            and_then (py_get expected ''stdout_contains'' (YStr ''PASS'')) (\<lambda>expected_stdout.
              if int_eq_yaml actual_exit expected_exit
              then yaml_in_str expected_stdout output
              else Inr False)))))
      else Inr (actual_exit = 0 \<and> str_in ''PASS'' output))"

definition embedded_check ::
  "'w sys \<Rightarrow> yaml \<Rightarrow> cmd_spec \<Rightarrow> 'w \<Rightarrow> py_error + check_result \<times> 'w" where
  \<comment> \<open>the body of the loop over the embedded commands\<close>
  "embedded_check sys expected_outputs cmd w =
     and_then (auto_correct_command (cs_command cmd))
       (\<lambda>(corrected_cmd, was_corrected, correction_note).
     and_then (is_malformed_command corrected_cmd) (\<lambda>(malformed, malform_reason).
       if malformed then
         Inr (\<lparr>cr_name = YStr (cs_name cmd), cr_command = cs_command cmd,
                cr_corrected_command = None, cr_correction_note = None,
                cr_expected = YInt 0, cr_actual = - 2,
                cr_output = ''MALFORMED COMMAND: '' @ malform_reason,
                cr_passed = False, cr_duration_ms = 0,
                cr_error = YStr (''Malformed command detected: '' @ malform_reason),
                cr_malformed = True, cr_was_auto_corrected = False\<rparr>, w)
       else
         (let start = now_us sys w
          in case run_command sys w corrected_cmd of
               ((actual_exit, output), w') \<Rightarrow>
                 let duration = elapsed_ms start (now_us sys w')
                 in and_then (check_passed expected_outputs (cs_check cmd) actual_exit output)
                      (\<lambda>passed.
                        Inr (\<lparr>cr_name = YStr (cs_name cmd), cr_command = cs_command cmd,
                               cr_corrected_command =
                                 (if was_corrected then Some corrected_cmd else None),
                               cr_correction_note =
                                 (if was_corrected then Some correction_note else None),
                               cr_expected = YInt 0, cr_actual = actual_exit,
                               cr_output = take 500 output, cr_passed = passed,
                               cr_duration_ms = duration,
                               cr_error = YStr (if passed then [] else ''Check failed''),
                               cr_malformed = False,
                               cr_was_auto_corrected = was_corrected\<rparr>, w')))))"

fun embedded_loop ::
  "'w sys \<Rightarrow> yaml \<Rightarrow> cmd_spec list \<Rightarrow> 'w \<Rightarrow> py_error + check_result list \<times> 'w" where
  "embedded_loop sys expected_outputs [] w = Inr ([], w)"
| "embedded_loop sys expected_outputs (cmd # cmds) w =
     (case embedded_check sys expected_outputs cmd w of
        Inl e \<Rightarrow> Inl e
      | Inr (r, w') \<Rightarrow>
          (case embedded_loop sys expected_outputs cmds w' of
             Inl e \<Rightarrow> Inl e
           | Inr (rs, w'') \<Rightarrow> Inr (r # rs, w'')))"

definition pattern_variables :: "string \<Rightarrow> yaml \<Rightarrow> string list \<Rightarrow> (string \<times> yaml) list" where
  \<comment> \<open>the dictionary \<open>variables\<close>, in insertion order\<close>
  "pattern_variables issue lane_value paths =
     [(''issue_id'', YStr issue), (''lane'', lane_value)] @
     (case paths of
        [] \<Rightarrow> []
      | target # _ \<Rightarrow>
          [(''file_path'', YStr target),
           (''dir_path'', YStr (if path_dirname target \<noteq> [] then path_dirname target else target)),
           (''script_path'', YStr target)])"

definition fallback_checks ::
  "'w sys \<Rightarrow> 'w \<Rightarrow> string \<Rightarrow> string \<Rightarrow> yaml \<Rightarrow> string \<Rightarrow> py_error + check_result list \<times> 'w" where
  \<comment> \<open>the \<open>else\<close> branch: pattern-based verification\<close>
  "fallback_checks sys w issue depth_arg frontmatter content =
     and_then (load_patterns sys w) (\<lambda>patterns.
     and_then (py_get frontmatter ''verification_pattern'' (YStr ''missing_file'')) (\<lambda>pattern_name.
     and_then (py_get frontmatter ''verification_depth'' (YStr depth_arg)) (\<lambda>fm_depth.
     and_then (extract_target_paths frontmatter content) (\<lambda>paths.
     and_then (py_get frontmatter ''lane'' (YStr (take 1 issue))) (\<lambda>lane_value.
       run_pattern_checks sys w pattern_name patterns
         (pattern_variables issue lane_value paths) fm_depth)))))"

definition calc_results :: "check_result list \<Rightarrow> int \<times> int \<times> bool" where
  \<comment> \<open>\<open>(passed_count, failed_count, all_passed)\<close>\<close>
  "calc_results check_results =
     (let passed_count = int (length (filter cr_passed check_results));
          failed_count = int (length check_results) - passed_count
      in (passed_count, failed_count, failed_count = 0 \<and> length check_results > 0))"

definition dependency_check :: "string list \<Rightarrow> check_result" where
  "dependency_check unresolved_deps =
     \<lparr>cr_name = YStr ''dependency_check'', cr_command = ''check_dependencies'',
      cr_corrected_command = None, cr_correction_note = None,
      cr_expected = YInt 0, cr_actual = 1,
      cr_output = ''Unresolved dependencies: '' @ join '', '' unresolved_deps,
      cr_passed = False, cr_duration_ms = 0,
      cr_error = YStr (''Dependencies not satisfied: '' @ join '', '' unresolved_deps),
      cr_malformed = False, cr_was_auto_corrected = False\<rparr>"

definition dependency_gate ::
  "string list \<Rightarrow> check_result list \<Rightarrow> check_result list \<times> int \<times> int \<times> bool" where
  \<comment> \<open>\<open>check_results\<close> and \<open>(passed_count, failed_count, all_passed)\<close> after the gate\<close>
  "dependency_gate unresolved_deps check_results =
     (let before = calc_results check_results
      in if unresolved_deps \<noteq> []
         then (let appended = check_results @ [dependency_check unresolved_deps]
               in (appended, calc_results appended))
         else (check_results, before))"

definition confidence_of :: "int \<Rightarrow> check_result list \<Rightarrow> int" where
  \<comment> \<open>\<open>int((passed_count / len(check_results) * 100)) if check_results else 0\<close>\<close>
  "confidence_of n check_results =
     (if check_results \<noteq> []
      then py_int (py_fmul (py_truediv n (int (length check_results))) 100)
      else 0)"

definition save_evidence :: "'w sys \<Rightarrow> 'w state \<Rightarrow> outcome \<Rightarrow> string option \<times> 'w state" where
  \<comment> \<open>the message of the exception, if one was raised, and the next state\<close>
  "save_evidence sys st result =
     (case st of (w, wrote) \<Rightarrow>
        (case lane result of
           YStr l \<Rightarrow>
             let lane_dir = path_join EVIDENCE_DIR [py_upper l];
                 filename = issue_id result @ ''_'' @ now_stamp sys w @ ''.json'';
                 filepath = path_join lane_dir [filename];
                 data = \<lparr>ev_issue_id = issue_id result, ev_lane = lane result,
                         ev_timestamp = timestamp result, ev_all_passed = passed result,
                         ev_passed_checks = passed_count result,
                         ev_failed_checks = failed_count result,
                         ev_total_checks = total_checks result,
                         ev_confidence_score = confidence result,
                         ev_verification_pattern = pattern result,
                         ev_verification_depth = depth result,
                         ev_affected_paths = target_paths result,
                         ev_checks = checks result\<rparr>
             in (case write_json sys w lane_dir filepath data of
                   (err, w') \<Rightarrow> (err, (w', wrote @ [(filepath, Json data)])))
         | v \<Rightarrow>
             (Some ([CHR 0x27] @ type_name v @ [CHR 0x27] @ '' object has no attribute ''
                    @ [CHR 0x27] @ ''upper'' @ [CHR 0x27]), st)))"

definition verified_content :: "string \<Rightarrow> string \<Rightarrow> int \<Rightarrow> string" where
  \<comment> \<open>the text \<open>update_issue_verified\<close> writes back, for the text it read\<close>
  "verified_content content today conf =
     (if startswith content ''---'' then
        (let end = py_find content frontmatter_end 3
         in if end > 0 then
              (let frontmatter_text = slice content 4 end;
                   rest = drop (nat end + 5) content;
                   frontmatter_text' =
                     (if \<not> str_in ''date_verified:'' frontmatter_text
                      then frontmatter_text @ [nl] @ ''date_verified: '' @ [dquote] @ today
                             @ [dquote] @ [nl] @ ''verification_confidence: '' @ str_int conf @ [nl]
                      else frontmatter_text)
               in ''---'' @ [nl] @ frontmatter_text' @ [nl] @ ''---'' @ [nl] @ rest)
            else content)
      else content)"

definition update_issue_verified ::
  "'w sys \<Rightarrow> 'w state \<Rightarrow> string \<Rightarrow> outcome \<Rightarrow> string option \<times> 'w state" where
  \<comment> \<open>the message of the exception, if one was raised, and the next state\<close>
  "update_issue_verified sys st filepath result =
     (case st of (w, wrote) \<Rightarrow>
        (case read_text sys w filepath of
           Inl msg \<Rightarrow> (Some msg, st)
         | Inr content \<Rightarrow>
             let content' = verified_content content (now_date sys w) (confidence result)
             in (case write_text sys w filepath content' of
                   (err, w') \<Rightarrow> (err, (w', wrote @ [(filepath, Text content')])))))"

definition build_result ::
  "'w sys \<Rightarrow> 'w \<Rightarrow> string \<Rightarrow> string \<Rightarrow> yaml \<Rightarrow> string \<Rightarrow> yaml \<Rightarrow> string list \<Rightarrow> bool
     \<Rightarrow> check_result list \<Rightarrow> py_error + outcome" where
  \<comment> \<open>from \<open># Calculate results\<close> to the dictionary \<open>result\<close>\<close>
  "build_result sys w issue depth_arg frontmatter content deps unresolved_deps embedded
       check_results0 =
     (case dependency_gate unresolved_deps check_results0 of
        (check_results, n_passed, n_failed, all_passed) \<Rightarrow>
     and_then (py_get frontmatter ''lane'' (YStr [])) (\<lambda>lane_value.
     and_then (py_get frontmatter ''status'' (YStr ''OPEN'')) (\<lambda>status_value.
     and_then (py_get frontmatter ''verification_pattern'' (YStr ''embedded_commands'')) (\<lambda>pattern_value.
     and_then (py_get frontmatter ''verification_depth'' (YStr depth_arg)) (\<lambda>depth_value.
     and_then (extract_target_paths frontmatter content) (\<lambda>paths.
       Inr \<lparr>issue_id = issue, lane = lane_value, status = status_value,
            pattern = pattern_value, depth = depth_value, depends_on = deps,
            unresolved_dependencies = unresolved_deps, target_paths = paths,
            checks = check_results, passed = all_passed,
            passed_count = n_passed, failed_count = n_failed,
            total_checks = int (length check_results),
            confidence = confidence_of n_passed check_results,
            timestamp = now_isoformat sys w,
            used_embedded_commands = embedded,
            evidence_error = None, status_updated = False, update_error = None\<rparr>))))))"

definition finish ::
  "'w sys \<Rightarrow> 'w state \<Rightarrow> bool \<Rightarrow> string \<Rightarrow> outcome \<Rightarrow> vresult \<times> 'w state" where
  \<comment> \<open>from \<open># Save evidence\<close> to the end of \<open>verify_issue\<close>\<close>
  "finish sys st update_status filepath result =
     (case save_evidence sys st result of
        (ev_err, st1) \<Rightarrow>
          let result1 = result\<lparr>evidence_error := ev_err\<rparr>
          in if update_status \<and> passed result then
               (case update_issue_verified sys st1 filepath result1 of
                  (None, st2) \<Rightarrow> (Outcome (result1\<lparr>status_updated := True\<rparr>), st2)
                | (Some msg, st2) \<Rightarrow> (Outcome (result1\<lparr>update_error := Some msg\<rparr>), st2))
             else (Outcome result1, st1))"

definition verify_issue ::
  "'w sys \<Rightarrow> 'w state \<Rightarrow> string \<Rightarrow> string \<Rightarrow> bool \<Rightarrow> py_error + vresult \<times> 'w state" where
  "verify_issue sys st issue depth_arg update_status =
     (case st of (w, wrote) \<Rightarrow>
      and_then (find_issue_file sys w issue) (\<lambda>found.
        case found of
          None \<Rightarrow> Inr (Failure issue (''Issue file not found for '' @ issue), st)
        | Some filepath \<Rightarrow>
            (case read_text sys w filepath of
               Inl msg \<Rightarrow> Inr (Failure issue (''Error reading file: '' @ msg), st)
             | Inr content \<Rightarrow>
                 let frontmatter = parse_frontmatter sys w filepath
                 in if \<not> truthy frontmatter
                    then Inr (Failure issue ''No frontmatter found'', st)
                    else
                      and_then (py_get frontmatter ''depends_on'' (YList [])) (\<lambda>deps.
                      and_then (check_dependencies sys w deps) (\<lambda>unresolved_deps.
                        let verification_commands = extract_verification_commands content;
                            expected_outputs = extract_expected_outputs sys content
                        in and_then
                             (if verification_commands \<noteq> []
                              then embedded_loop sys expected_outputs verification_commands w
                              else fallback_checks sys w issue depth_arg frontmatter content)
                             (\<lambda>(check_results, w').
                        and_then
                             (build_result sys w' issue depth_arg frontmatter content deps
                                unresolved_deps (verification_commands \<noteq> []) check_results)
                             (\<lambda>result.
                               Inr (finish sys (w', wrote) update_status filepath result))))))))"

section \<open>Batch processing and the command line\<close>

record stats =
  st_total :: int
  st_passed :: int
  st_failed :: int
  st_errors :: int

definition count_result :: "stats \<Rightarrow> vresult \<Rightarrow> stats" where
  \<comment> \<open>the counters after one more issue of the lane\<close>
  "count_result s result =
     (let s1 = s\<lparr>st_total := st_total s + 1\<rparr>
      in if has_error result then s1\<lparr>st_errors := st_errors s1 + 1\<rparr>
         else if result_passed result then s1\<lparr>st_passed := st_passed s1 + 1\<rparr>
         else s1\<lparr>st_failed := st_failed s1 + 1\<rparr>)"

text \<open>
  The loops of \<open>verify_lane\<close> and \<open>main\<close> return, besides what the source computes, the
  list of the results of \<open>verify_issue\<close> in the order of the calls.
\<close>

fun lane_loop ::
  "'w sys \<Rightarrow> 'w state \<Rightarrow> string \<Rightarrow> string list \<Rightarrow> stats
     \<Rightarrow> py_error + stats \<times> vresult list \<times> 'w state" where
  "lane_loop sys st depth_arg [] s = Inr (s, [], st)"
| "lane_loop sys st depth_arg (filepath # files) s =
     (case verify_issue sys st (py_replace ''.md'' [] (path_basename filepath)) depth_arg False of
        Inl e \<Rightarrow> Inl e
      | Inr (result, st') \<Rightarrow>
          (case lane_loop sys st' depth_arg files (count_result s result) of
             Inl e \<Rightarrow> Inl e
           | Inr (s', rs, st'') \<Rightarrow> Inr (s', result # rs, st'')))"

definition no_stats :: stats where
  "no_stats = \<lparr>st_total = 0, st_passed = 0, st_failed = 0, st_errors = 0\<rparr>"

definition lane_files :: "'w sys \<Rightarrow> 'w \<Rightarrow> string \<Rightarrow> string list" where
  \<comment> \<open>\<open>sorted(files)\<close>\<close>
  "lane_files sys w lane_arg =
     py_sorted (filter (\<lambda>f. \<not> str_in ''TEMPLATE'' (py_upper f))
                  (glob_glob sys w (path_join ISSUES_DIR [py_upper lane_arg, ''*.md''])))"

definition verify_lane ::
  "'w sys \<Rightarrow> 'w state \<Rightarrow> string \<Rightarrow> string
     \<Rightarrow> py_error + stats \<times> vresult list \<times> 'w state" where
  "verify_lane sys st lane_arg depth_arg =
     lane_loop sys st depth_arg (lane_files sys (fst st) lane_arg) no_stats"

record args =
  arg_issue_ids :: "string list"
  arg_lane :: "string option"
  arg_all :: bool
  arg_update :: bool
  arg_quick :: bool
  arg_deep :: bool
  arg_verbose :: bool

definition add_stats :: "stats \<Rightarrow> stats \<Rightarrow> stats" where
  "add_stats a b =
     \<lparr>st_total = st_total a + st_total b, st_passed = st_passed a + st_passed b,
      st_failed = st_failed a + st_failed b, st_errors = st_errors a + st_errors b\<rparr>"

fun all_loop ::
  "'w sys \<Rightarrow> 'w state \<Rightarrow> string \<Rightarrow> string list \<Rightarrow> stats
     \<Rightarrow> py_error + stats \<times> vresult list \<times> 'w state" where
  "all_loop sys st depth_arg [] total_stats = Inr (total_stats, [], st)"
| "all_loop sys st depth_arg (lane_dir # dirs) total_stats =
     (if path_isdir sys (fst st) lane_dir then
        (case verify_lane sys st (path_basename lane_dir) depth_arg of
           Inl e \<Rightarrow> Inl e
         | Inr (s, rs, st') \<Rightarrow>
             (case all_loop sys st' depth_arg dirs (add_stats total_stats s) of
                Inl e \<Rightarrow> Inl e
              | Inr (tot, rs', st'') \<Rightarrow> Inr (tot, rs @ rs', st'')))
      else all_loop sys st depth_arg dirs total_stats)"

fun ids_loop ::
  "'w sys \<Rightarrow> 'w state \<Rightarrow> string \<Rightarrow> bool \<Rightarrow> string list \<Rightarrow> bool
     \<Rightarrow> py_error + bool \<times> vresult list \<times> 'w state" where
  "ids_loop sys st depth_arg update [] all_passed = Inr (all_passed, [], st)"
| "ids_loop sys st depth_arg update (issue # ids) all_passed =
     (case verify_issue sys st issue depth_arg update of
        Inl e \<Rightarrow> Inl e
      | Inr (result, st') \<Rightarrow>
          (case ids_loop sys st' depth_arg update ids
                  (if \<not> result_passed result then False else all_passed) of
             Inl e \<Rightarrow> Inl e
           | Inr (ok, rs, st'') \<Rightarrow> Inr (ok, result # rs, st'')))"

definition main_depth :: "args \<Rightarrow> string" where
  "main_depth a = (if arg_quick a then ''QUICK'' else if arg_deep a then ''DEEP'' else ''STANDARD'')"

definition main :: "'w sys \<Rightarrow> 'w state \<Rightarrow> args \<Rightarrow> py_error + int \<times> vresult list \<times> 'w state" where
  \<comment> \<open>the exit code of the process, the results of the issues it verified, the state\<close>
  "main sys st a =
     (if arg_lane a \<noteq> None \<and> arg_lane a \<noteq> Some [] then
        and_then (verify_lane sys st (the (arg_lane a)) (main_depth a)) (\<lambda>(s, rs, st').
          Inr (if st_failed s = 0 then 0 else 1, rs, st'))
      else if arg_all a then
        and_then (all_loop sys st (main_depth a)
                    (py_sorted (glob_glob sys (fst st) (path_join ISSUES_DIR [''*''])))
                    no_stats) (\<lambda>(tot, rs, st').
          Inr (if st_failed tot = 0 then 0 else 1, rs, st'))
      else if arg_issue_ids a \<noteq> [] then
        and_then (ids_loop sys st (main_depth a) (arg_update a) (arg_issue_ids a) True)
          (\<lambda>(all_passed, rs, st'). Inr (if all_passed then 0 else 1, rs, st'))
      else Inr (1, [], st))"

section \<open>A small repository to run the model on\<close>

text \<open>
  Lane G holds an open prerequisite (G-00), an issue that depends on it and on a record
  that does not exist (G-01), an issue with no dependency (G-02) and an issue with forty
  missing dependencies and no embedded command (G-03); lane R holds a page without
  frontmatter. Every command prints PASS and exits with 0, and takes a millisecond. The
  state of the world is the number of commands run so far.
\<close>

definition embedded_block :: string where
  "embedded_block =
     ''**Verification Commands**\<newline>```bash\<newline># Check 1: config exists\<newline>test -f config/ && echo PASS\<newline>```\<newline>''"

definition demo_files :: "(string \<times> string) list" where
  "demo_files =
     [(''issues/G/G-00.md'', ''---\<newline>status: OPEN\<newline>---\<newline>''),
      (''issues/G/G-01.md'',
         ''---\<newline>status: OPEN\<newline>depends_on: [G-00, G-99]\<newline>---\<newline>'' @ embedded_block),
      (''issues/G/G-02.md'', ''---\<newline>status: OPEN\<newline>---\<newline>'' @ embedded_block),
      (''issues/G/G-03.md'', ''---\<newline>depends_on: forty\<newline>---\<newline>''),
      (''issues/R/README.md'', ''# Lane R\<newline>'')]"

definition demo_yaml :: "(string \<times> yaml) list" where
  "demo_yaml =
     [(''status: OPEN'', YMap [(''status'', YStr ''OPEN'')]),
      (''status: OPEN\<newline>depends_on: [G-00, G-99]'',
         YMap [(''status'', YStr ''OPEN''), (''depends_on'', YList [YStr ''G-00'', YStr ''G-99''])]),
      (''depends_on: forty'',
         YMap [(''depends_on'', YList (map (\<lambda>n. YStr (''G-'' @ str_int n)) [10..49]))])]"

definition demo_sys :: "nat sys" where
  "demo_sys =
     \<lparr>path_exists = (\<lambda>w p. map_of demo_files p \<noteq> None),
      path_isdir = (\<lambda>w p. p = ''issues/G'' \<or> p = ''issues/R''),
      glob_glob = (\<lambda>w p. if p = ''issues/R/*.md'' then [''issues/R/README.md''] else []),
      read_text = (\<lambda>w p. case map_of demo_files p of
                            None \<Rightarrow> Inl ''No such file or directory''
                          | Some t \<Rightarrow> Inr t),
      write_text = (\<lambda>w p t. (None, w)),
      write_json = (\<lambda>w d p e. (None, w)),
      subprocess_run = (\<lambda>w c. (Completed 0 ''PASS\<newline>'' [], Suc w)),
      yaml_safe_load = map_of demo_yaml,
      py_repr = (\<lambda>v. []),
      now_us = (\<lambda>w. 1000 * int w),
      now_isoformat = (\<lambda>w. ''2024-01-01T00:00:00''),
      now_stamp = (\<lambda>w. ''20240101_000000''),
      now_date = (\<lambda>w. ''2024-01-01'')\<rparr>"

definition outcome_with :: "(outcome \<Rightarrow> bool) \<Rightarrow> py_error + vresult \<times> 'w state \<Rightarrow> bool" where
  \<comment> \<open>the run returned an outcome, and the outcome satisfies \<open>P\<close>\<close>
  "outcome_with P x = (case x of Inr (Outcome r, st) \<Rightarrow> P r | _ \<Rightarrow> False)"

section \<open>The aggregate of one verification\<close>

lemma build_result_fields:
  assumes "build_result sys w issue depth_arg fm content deps unresolved emb cs0 = Inr r"
  shows "checks r = fst (dependency_gate unresolved cs0)"
    and "(passed_count r, failed_count r, passed r) = snd (dependency_gate unresolved cs0)"
    and "total_checks r = int (length (checks r))"
    and "confidence r = confidence_of (passed_count r) (checks r)"
    and "unresolved_dependencies r = unresolved" and "depends_on r = deps"
    and "used_embedded_commands r = emb"
  using assms
  by (auto simp: build_result_def and_then_def split: sum.splits prod.splits)

lemma finish_fields:
  assumes "finish sys st update filepath result = (Outcome r, st')"
  shows "checks r = checks result" and "passed r = passed result"
    and "passed_count r = passed_count result" and "failed_count r = failed_count result"
    and "total_checks r = total_checks result" and "confidence r = confidence result"
    and "unresolved_dependencies r = unresolved_dependencies result"
    and "depends_on r = depends_on result"
    and "used_embedded_commands r = used_embedded_commands result"
  using assms
  by (auto simp: finish_def Let_def split: prod.splits option.splits if_splits)

lemma finish_is_outcome: "\<exists>r st'. finish sys st update filepath result = (Outcome r, st')"
  by (auto simp: finish_def Let_def split: prod.splits option.splits if_splits)

lemma verify_issue_outcome:
  assumes "verify_issue sys (w, lg) issue depth_arg update = Inr (Outcome r, st')"
  shows "\<exists>filepath content fm deps unresolved cs0 w1 result.
           find_issue_file sys w issue = Inr (Some filepath)
         \<and> read_text sys w filepath = Inr content
         \<and> fm = parse_frontmatter sys w filepath \<and> truthy fm
         \<and> py_get fm ''depends_on'' (YList []) = Inr deps
         \<and> check_dependencies sys w deps = Inr unresolved
         \<and> (if extract_verification_commands content \<noteq> []
              then embedded_loop sys (extract_expected_outputs sys content)
                     (extract_verification_commands content) w
              else fallback_checks sys w issue depth_arg fm content) = Inr (cs0, w1)
         \<and> build_result sys w1 issue depth_arg fm content deps unresolved
              (extract_verification_commands content \<noteq> []) cs0 = Inr result
         \<and> finish sys (w1, lg) update filepath result = (Outcome r, st')"
  using assms
  by (auto simp: verify_issue_def and_then_def Let_def split: sum.splits prod.splits option.splits if_splits)


lemma calc_results_all_passed:
  "snd (snd (calc_results cs)) \<longleftrightarrow> cs \<noteq> [] \<and> (\<forall>c \<in> set cs. cr_passed c)"
proof -
  have "length (filter cr_passed cs) = length cs \<longleftrightarrow> (\<forall>c \<in> set cs. cr_passed c)"
    by (metis filter_id_conv length_filter_less less_irrefl_nat linorder_neqE_nat sum_length_filter_compl add.right_neutral filter_True)
  then show ?thesis by (auto simp: calc_results_def Let_def)
qed

lemma calc_results_counts:
  "fst (calc_results cs) = int (length (filter cr_passed cs))"
  "fst (snd (calc_results cs)) = int (length cs) - int (length (filter cr_passed cs))"
  by (simp_all add: calc_results_def Let_def)

lemma dependency_gate_checks:
  "fst (dependency_gate u cs) = (if u \<noteq> [] then cs @ [dependency_check u] else cs)"
  by (simp add: dependency_gate_def Let_def)

lemma dependency_gate_counts:
  "snd (dependency_gate u cs) = calc_results (fst (dependency_gate u cs))"
  by (simp add: dependency_gate_def Let_def)

lemma outcome_aggregate:
  assumes "verify_issue sys st issue depth_arg update = Inr (Outcome r, st')"
  shows "\<exists>cs0. checks r = fst (dependency_gate (unresolved_dependencies r) cs0)
            \<and> (passed_count r, failed_count r, passed r) = calc_results (checks r)
            \<and> total_checks r = int (length (checks r))
            \<and> confidence r = confidence_of (passed_count r) (checks r)"
proof -
  obtain w lg where st: "st = (w, lg)" by (cases st)
  from verify_issue_outcome [OF assms [unfolded st]]
  obtain filepath content fm deps unresolved cs0 w1 result
    where b: "build_result sys w1 issue depth_arg fm content deps unresolved
                (extract_verification_commands content \<noteq> []) cs0 = Inr result"
      and f: "finish sys (w1, lg) update filepath result = (Outcome r, st')"
    by blast
  note bf = build_result_fields [OF b]
  note ff = finish_fields [OF f]
  have "checks r = fst (dependency_gate (unresolved_dependencies r) cs0)"
    using bf(1,5) ff(1,7) by simp
  moreover have "(passed_count r, failed_count r, passed r) = calc_results (checks r)"
    using bf(1,2) ff(1,2,3,4) dependency_gate_counts [of unresolved cs0] by simp
  moreover have "total_checks r = int (length (checks r))"
    using bf(3) ff(1,5) by simp
  moreover have "confidence r = confidence_of (passed_count r) (checks r)"
    using bf(4) ff(1,3,6) by simp
  ultimately show ?thesis by blast
qed

lemma outcome_withD: "outcome_with P x \<Longrightarrow> \<exists>r st. x = Inr (Outcome r, st) \<and> P r"
  by (auto simp: outcome_with_def split: sum.splits prod.splits vresult.splits)

lemma demo_G01_runs:
  "outcome_with (\<lambda>r. depends_on r = YList [YStr ''G-00'', YStr ''G-99''])
     (verify_issue demo_sys (0, []) ''G-01'' ''STANDARD'' False)"
  by code_simp

text \<open>
  C1. For every verification of one issue that returns an outcome, \<open>passed\<close> (all_passed)
  is true if and only if \<open>total_checks > 0\<close> and every check result in \<open>checks\<close> has
  \<open>passed = true\<close>; in particular it is false when \<open>total_checks = 0\<close>. When there are
  unresolved dependencies, the synthetic dependency check is one of the check results.
\<close>

theorem all_passed_iff:
  assumes "verify_issue sys st issue depth_arg update = Inr (Outcome r, st')"
  shows "(passed r \<longleftrightarrow> total_checks r > 0 \<and> (\<forall>c \<in> set (checks r). cr_passed c))
       \<and> (total_checks r = 0 \<longrightarrow> \<not> passed r)
       \<and> (unresolved_dependencies r \<noteq> [] \<longrightarrow>
            dependency_check (unresolved_dependencies r) \<in> set (checks r))"
proof -
  from outcome_aggregate [OF assms] obtain cs0
    where c: "checks r = fst (dependency_gate (unresolved_dependencies r) cs0)"
      and a: "(passed_count r, failed_count r, passed r) = calc_results (checks r)"
      and t: "total_checks r = int (length (checks r))"
    by blast
  from a have "passed r = snd (snd (calc_results (checks r)))"
    by (metis snd_conv)
  then have p: "passed r \<longleftrightarrow> checks r \<noteq> [] \<and> (\<forall>c \<in> set (checks r). cr_passed c)"
    by (simp add: calc_results_all_passed)
  have "total_checks r > 0 \<longleftrightarrow> checks r \<noteq> []" using t by simp
  with p c show ?thesis by (auto simp: dependency_gate_checks)
qed


theorem all_passed_iff_witness:
  "\<exists>r st'. verify_issue demo_sys (0, []) ''G-01'' ''STANDARD'' False = Inr (Outcome r, st')
     \<and> (passed r \<longleftrightarrow> total_checks r > 0 \<and> list_all cr_passed (checks r))"
proof -
  from outcome_withD [OF demo_G01_runs] obtain r st'
    where run: "verify_issue demo_sys (0, []) ''G-01'' ''STANDARD'' False = Inr (Outcome r, st')"
    by blast
  from all_passed_iff [OF run] run show ?thesis by (auto simp: list_all_iff)
qed

section \<open>The dependency gate\<close>

lemma deps_loop_lists:
  assumes "deps_loop sys w items = Inr us" and "YStr d \<in> set items"
  shows "find_issue_file sys w d = Inr None \<Longrightarrow> d @ '' (not found)'' \<in> set us"
    and "find_issue_file sys w d = Inr (Some f) \<Longrightarrow> truthy (parse_frontmatter sys w f)
         \<Longrightarrow> py_get (parse_frontmatter sys w f) ''status'' (YStr ''OPEN'') = Inr (YStr st)
         \<Longrightarrow> py_upper st \<noteq> ''RESOLVED'' \<Longrightarrow> d \<in> set us"
  using assms
  by (induction items arbitrary: us)
     (auto simp: dep_unresolved_def and_then_def Let_def split: sum.splits)

lemma check_dependencies_lists:
  assumes "check_dependencies sys w deps = Inr us" and "py_iter deps = Inr items"
      and "YStr d \<in> set items"
  shows "find_issue_file sys w d = Inr None \<Longrightarrow> d @ '' (not found)'' \<in> set us"
    and "find_issue_file sys w d = Inr (Some f) \<Longrightarrow> truthy (parse_frontmatter sys w f)
         \<Longrightarrow> py_get (parse_frontmatter sys w f) ''status'' (YStr ''OPEN'') = Inr (YStr st)
         \<Longrightarrow> py_upper st \<noteq> ''RESOLVED'' \<Longrightarrow> d \<in> set us"
proof -
  have "truthy deps" using assms(2,3) by (cases deps) auto
  with assms(1,2) have l: "deps_loop sys w items = Inr us"
    by (simp add: check_dependencies_def and_then_def)
  show "find_issue_file sys w d = Inr None \<Longrightarrow> d @ '' (not found)'' \<in> set us"
    using deps_loop_lists(1) [OF l assms(3)] .
  show "find_issue_file sys w d = Inr (Some f) \<Longrightarrow> truthy (parse_frontmatter sys w f)
         \<Longrightarrow> py_get (parse_frontmatter sys w f) ''status'' (YStr ''OPEN'') = Inr (YStr st)
         \<Longrightarrow> py_upper st \<noteq> ''RESOLVED'' \<Longrightarrow> d \<in> set us"
    using deps_loop_lists(2) [OF l assms(3)] .
qed

lemma outcome_dependencies:
  assumes "verify_issue sys (w, lg) issue depth_arg update = Inr (Outcome r, st')"
  shows "check_dependencies sys w (depends_on r) = Inr (unresolved_dependencies r)"
proof -
  from verify_issue_outcome [OF assms]
  obtain filepath content fm deps unresolved cs0 w1 result
    where d: "check_dependencies sys w deps = Inr unresolved"
      and b: "build_result sys w1 issue depth_arg fm content deps unresolved
                (extract_verification_commands content \<noteq> []) cs0 = Inr result"
      and f: "finish sys (w1, lg) update filepath result = (Outcome r, st')"
    by blast
  from build_result_fields(5,6) [OF b] finish_fields(7,8) [OF f] d show ?thesis by simp
qed

text \<open>
  C3. Take a verification that returns an outcome, for an issue with a declared
  dependency \<open>d\<close> that is unresolved: its record cannot be located, or the record is
  located, its frontmatter is read, and its status in upper case is not RESOLVED. Then
  the last check result is the synthetic failing \<open>dependency_check\<close>, appended after the
  other checks \<open>cs\<close>, whose output lists the unresolved identifiers; \<open>passed\<close> is false,
  \<open>failed_count\<close> is one more than the aggregate of \<open>cs\<close> alone and \<open>passed_count\<close> is that
  of \<open>cs\<close>, whatever \<open>cs\<close> holds; a missing record is listed as \<open>d (not found)\<close>, a located
  one as \<open>d\<close>, and the two differ. (A located record whose frontmatter cannot be read is
  neither: the source skips it.)
\<close>

theorem dependency_gate_appends:
  assumes run: "verify_issue sys (w, lg) issue depth_arg update = Inr (Outcome r, st')"
      and items: "py_iter (depends_on r) = Inr items"
      and dep: "YStr d \<in> set items"
      and unres: "find_issue_file sys w d = Inr None
                \<or> (\<exists>f st. find_issue_file sys w d = Inr (Some f)
                      \<and> truthy (parse_frontmatter sys w f)
                      \<and> py_get (parse_frontmatter sys w f) ''status'' (YStr ''OPEN'') = Inr (YStr st)
                      \<and> py_upper st \<noteq> ''RESOLVED'')"
  shows "\<exists>cs. checks r = cs @ [dependency_check (unresolved_dependencies r)]
           \<and> cr_name (last (checks r)) = YStr ''dependency_check''
           \<and> \<not> cr_passed (last (checks r))
           \<and> cr_output (last (checks r))
               = ''Unresolved dependencies: '' @ join '', '' (unresolved_dependencies r)
           \<and> \<not> passed r
           \<and> failed_count r = fst (snd (calc_results cs)) + 1
           \<and> passed_count r = fst (calc_results cs)
           \<and> (if find_issue_file sys w d = Inr None
                then d @ '' (not found)'' \<in> set (unresolved_dependencies r)
                else d \<in> set (unresolved_dependencies r))
           \<and> d @ '' (not found)'' \<noteq> d"
proof -
  note cd = outcome_dependencies [OF run]
  have listed: "if find_issue_file sys w d = Inr None
                then d @ '' (not found)'' \<in> set (unresolved_dependencies r)
                else d \<in> set (unresolved_dependencies r)"
    using unres check_dependencies_lists [OF cd items dep] by auto
  then have ne: "unresolved_dependencies r \<noteq> []" by (auto split: if_splits)
  from outcome_aggregate [OF run] obtain cs0
    where c: "checks r = fst (dependency_gate (unresolved_dependencies r) cs0)"
      and a: "(passed_count r, failed_count r, passed r) = calc_results (checks r)"
    by blast
  from c ne have c': "checks r = cs0 @ [dependency_check (unresolved_dependencies r)]"
    by (simp add: dependency_gate_checks)
  have np: "\<not> cr_passed (dependency_check (unresolved_dependencies r))"
    by (simp add: dependency_check_def)
  from a have "passed r = snd (snd (calc_results (checks r)))" by (metis snd_conv)
  with c' np have "\<not> passed r" by (simp add: calc_results_all_passed)
  moreover from a have "failed_count r = fst (snd (calc_results (checks r)))"
    by (metis fst_conv snd_conv)
  with c' np have "failed_count r = fst (snd (calc_results cs0)) + 1"
    by (simp add: calc_results_counts)
  moreover from a have "passed_count r = fst (calc_results (checks r))"
    by (metis fst_conv)
  with c' np have "passed_count r = fst (calc_results cs0)"
    by (simp add: calc_results_counts)
  ultimately show ?thesis using c' listed
    by (intro exI [of _ cs0]) (simp add: dependency_check_def)
qed


lemma demo_G99_missing: "find_issue_file demo_sys 0 ''G-99'' = Inr None"
  by code_simp

theorem dependency_gate_appends_witness:
  "\<exists>r st'. verify_issue demo_sys (0, []) ''G-01'' ''STANDARD'' False = Inr (Outcome r, st')
     \<and> py_iter (depends_on r) = Inr [YStr ''G-00'', YStr ''G-99'']
     \<and> find_issue_file demo_sys 0 ''G-99'' = Inr None
     \<and> \<not> passed r
     \<and> ''G-99 (not found)'' \<in> set (unresolved_dependencies r)
     \<and> (\<exists>cs. checks r = cs @ [dependency_check (unresolved_dependencies r)]
           \<and> failed_count r = fst (snd (calc_results cs)) + 1)"
proof -
  from outcome_withD [OF demo_G01_runs] obtain r st'
    where run: "verify_issue demo_sys (0, []) ''G-01'' ''STANDARD'' False = Inr (Outcome r, st')"
      and deps: "depends_on r = YList [YStr ''G-00'', YStr ''G-99'']"
    by blast
  have items: "py_iter (depends_on r) = Inr [YStr ''G-00'', YStr ''G-99'']"
    by (simp add: deps)
  have dep: "YStr ''G-99'' \<in> set [YStr ''G-00'', YStr ''G-99'']" by simp
  from dependency_gate_appends [OF run items dep disjI1 [OF demo_G99_missing]]
  show ?thesis using run items demo_G99_missing by auto
qed

section \<open>The stored output of a check\<close>

lemma first_match_in: "first_match ps c = Some reason \<Longrightarrow> reason \<in> snd ` set ps"
  by (induction ps c rule: first_match.induct) (auto split: if_splits)

lemma shell_command_length: "py_lower fw \<in> set shell_commands \<Longrightarrow> length fw \<le> 7"
proof -
  assume "py_lower fw \<in> set shell_commands"
  then have "length (py_lower fw) \<le> 7" by (auto simp: shell_commands_def)
  then show ?thesis by (simp add: py_lower_def)
qed

lemma malformed_reason_length:
  assumes "is_malformed_command c = Inr (True, reason)"
  shows "length reason \<le> 41"
proof (cases "first_match MALFORMED_PATTERNS c")
  case (Some r0)
  with assms have "reason = r0" by (simp add: is_malformed_command_def)
  with first_match_in [OF Some] show ?thesis by (auto simp: MALFORMED_PATTERNS_def)
next
  case None
  with assms show ?thesis
    by (auto simp: is_malformed_command_def Let_def
             split: if_splits option.splits prod.splits sum.splits
             dest!: shell_command_length)
qed

lemma embedded_check_output:
  assumes "embedded_check sys eo cmd w = Inr (r, w')"
  shows "length (cr_output r) \<le> 500"
  using assms
  by (auto simp: embedded_check_def and_then_def Let_def
           split: sum.splits prod.splits if_splits dest!: malformed_reason_length)

lemma embedded_loop_output:
  assumes "embedded_loop sys eo cmds w = Inr (rs, w')"
  shows "\<forall>r \<in> set rs. length (cr_output r) \<le> 500"
  using assms
  by (induction cmds arbitrary: w rs)
     (auto split: sum.splits prod.splits dest: embedded_check_output)

lemma run_pattern_check_output:
  assumes "run_pattern_check sys variables check w = Inr (r, w')"
  shows "length (cr_output r) \<le> 500"
  using assms
  by (auto simp: run_pattern_check_def and_then_def Let_def
           split: sum.splits prod.splits yaml.splits)

lemma pattern_loop_output:
  assumes "pattern_loop sys variables allowed d items w = Inr (rs, w')"
  shows "\<forall>r \<in> set rs. length (cr_output r) \<le> 500"
  using assms
  by (induction items arbitrary: w rs)
     (auto split: sum.splits prod.splits bool.splits dest: run_pattern_check_output)

lemma fallback_checks_output:
  assumes "fallback_checks sys w issue depth_arg fm content = Inr (rs, w')"
  shows "\<forall>r \<in> set rs. length (cr_output r) \<le> 500"
  using assms pattern_loop_output
  by (fastforce simp: fallback_checks_def run_pattern_checks_def and_then_def split: sum.splits)

text \<open>
  C10 as stated fails: every check result of a run would store at most 500 characters of
  output, but the output of the synthetic dependency check lists every unresolved
  identifier and is not cut. Issue G-03 of the small repository has forty missing
  dependencies, and its dependency check stores more than 500 characters.
\<close>

theorem output_truncated_counterexample:
  "outcome_with (\<lambda>r. list_ex (\<lambda>c. length (cr_output c) > 500) (checks r))
     (verify_issue demo_sys (0, []) ''G-03'' ''STANDARD'' False)"
  by code_simp


text \<open>
  C10, amended. In every outcome, every check result other than the synthetic dependency
  check stores at most 500 characters of output: the result of an executed command, on
  the embedded path and on the pattern path, stores the first 500 characters of the
  combined output, and the result of a malformed command stores a short fixed message.
\<close>

theorem executed_output_truncated:
  assumes "verify_issue sys st issue depth_arg update = Inr (Outcome r, st')"
  shows "\<forall>c \<in> set (checks r).
           c = dependency_check (unresolved_dependencies r) \<or> length (cr_output c) \<le> 500"
proof -
  obtain w lg where st: "st = (w, lg)" by (cases st)
  from verify_issue_outcome [OF assms [unfolded st]]
  obtain filepath content fm deps unresolved cs0 w1 result
    where cs: "(if extract_verification_commands content \<noteq> []
                then embedded_loop sys (extract_expected_outputs sys content)
                       (extract_verification_commands content) w
                else fallback_checks sys w issue depth_arg fm content) = Inr (cs0, w1)"
      and b: "build_result sys w1 issue depth_arg fm content deps unresolved
                (extract_verification_commands content \<noteq> []) cs0 = Inr result"
      and f: "finish sys (w1, lg) update filepath result = (Outcome r, st')"
    by blast
  from cs have bound: "\<forall>c \<in> set cs0. length (cr_output c) \<le> 500"
    using embedded_loop_output fallback_checks_output by (metis (full_types))
  from build_result_fields(1,5) [OF b] finish_fields(1,7) [OF f]
  have "checks r = fst (dependency_gate (unresolved_dependencies r) cs0)" by simp
  with bound show ?thesis by (auto simp: dependency_gate_checks split: if_splits)
qed


theorem executed_output_truncated_witness:
  "\<exists>r st'. verify_issue demo_sys (0, []) ''G-01'' ''STANDARD'' False = Inr (Outcome r, st')
     \<and> list_all (\<lambda>c. c = dependency_check (unresolved_dependencies r)
                       \<or> length (cr_output c) \<le> 500) (checks r)"
proof -
  from outcome_withD [OF demo_G01_runs] obtain r st'
    where run: "verify_issue demo_sys (0, []) ''G-01'' ''STANDARD'' False = Inr (Outcome r, st')"
    by blast
  from executed_output_truncated [OF run] run show ?thesis by (auto simp: list_all_iff)
qed

end
